theory Spec2Isabelle
  imports Main
begin

section \<open>Python floats\<close>

text \<open>
  Balances and amounts are Python floats (\<^verbatim>\<open>Column(Float)\<close>, \<^verbatim>\<open>amount: float\<close>):
  IEEE 754 binary64 numbers. \<open>Finite m e\<close> is the number \<open>m * 2 ^ e\<close>; \<open>Finite 0 0\<close> is
  \<^verbatim>\<open>0.0\<close> and \<open>NegZero\<close> is \<^verbatim>\<open>-0.0\<close>. The operations return a finite result with an odd
  mantissa, so that equal numbers are equal terms: \<^verbatim>\<open>1.0\<close> is \<open>Finite 1 0\<close>, \<^verbatim>\<open>40.0\<close> is
  \<open>Finite 5 3\<close>, \<^verbatim>\<open>0.9\<close> is \<open>Finite 8106479329266893 (- 53)\<close>.
\<close>

datatype pyfloat = Finite int int | NegZero | PosInf | NegInf | NaN

text \<open>The number of bits of a non-negative integer (\<^verbatim>\<open>int.bit_length\<close>).\<close>

function bit_length :: "int \<Rightarrow> nat" where
  "bit_length k = (if k \<le> 0 then 0 else Suc (bit_length (k div 2)))"
  by pat_completeness auto
termination
  by (relation "measure nat") auto

declare bit_length.simps [simp del]

function normalize_float :: "int \<Rightarrow> int \<Rightarrow> pyfloat" where
  "normalize_float m e =
     (if m = 0 then Finite 0 0
      else if even m then normalize_float (m div 2) (e + 1)
      else Finite m e)"
  by pat_completeness auto
termination
  by (relation "measure (\<lambda>(m, e). nat \<bar>m\<bar>)") auto

declare normalize_float.simps [simp del]

text \<open>\<open>round_half_even a s\<close> is \<open>a / 2 ^ s\<close> rounded to the nearest integer, a tie to the even one.\<close>

definition round_half_even :: "int \<Rightarrow> nat \<Rightarrow> int" where
  "round_half_even a s =
     (let q = a div 2 ^ s; r = a mod 2 ^ s
      in if 2 * r < 2 ^ s then q
         else if 2 ^ s < 2 * r then q + 1
         else if even q then q else q + 1)"

text \<open>
  The exact number \<open>k * 2 ^ e\<close> rounded to 53 significant bits, to infinity from \<open>2 ^ 1024\<close> on.
  A sum of two doubles is a multiple of \<open>2 ^ - 1074\<close>, so no rounding happens below the
  normal range.
\<close>

definition round53 :: "int \<Rightarrow> int \<Rightarrow> pyfloat" where
  "round53 k e =
     (let s = bit_length \<bar>k\<bar> - 53;
          q = round_half_even \<bar>k\<bar> s;
          e' = e + int s
      in if 1024 < int (bit_length q) + e' then (if k < 0 then NegInf else PosInf)
         else normalize_float (if k < 0 then - q else q) e')"

fun fexp :: "pyfloat \<Rightarrow> int" where
  "fexp (Finite m e) = e"
| "fexp _ = 0"

text \<open>The mantissa of a finite float at a smaller exponent \<open>e0\<close>.\<close>

fun mant_at :: "pyfloat \<Rightarrow> int \<Rightarrow> int" where
  "mant_at (Finite m e) e0 = m * 2 ^ nat (e - e0)"
| "mant_at _ e0 = 0"

text \<open>\<^verbatim>\<open>x + y\<close>\<close>

fun fadd :: "pyfloat \<Rightarrow> pyfloat \<Rightarrow> pyfloat" where
  "fadd NaN _ = NaN"
| "fadd _ NaN = NaN"
| "fadd PosInf NegInf = NaN"
| "fadd NegInf PosInf = NaN"
| "fadd PosInf _ = PosInf"
| "fadd _ PosInf = PosInf"
| "fadd NegInf _ = NegInf"
| "fadd _ NegInf = NegInf"
| "fadd NegZero y = y"
| "fadd x NegZero = x"
| "fadd x y = (let e = min (fexp x) (fexp y) in round53 (mant_at x e + mant_at y e) e)"

text \<open>\<^verbatim>\<open>- x\<close>\<close>

fun fneg :: "pyfloat \<Rightarrow> pyfloat" where
  "fneg (Finite m e) = (if m = 0 then NegZero else Finite (- m) e)"
| "fneg NegZero = Finite 0 0"
| "fneg PosInf = NegInf"
| "fneg NegInf = PosInf"
| "fneg NaN = NaN"

text \<open>\<^verbatim>\<open>x - y\<close>\<close>

definition fsub :: "pyfloat \<Rightarrow> pyfloat \<Rightarrow> pyfloat" where
  "fsub x y = fadd x (fneg y)"

text \<open>\<^verbatim>\<open>x < y\<close>\<close>

fun flt :: "pyfloat \<Rightarrow> pyfloat \<Rightarrow> bool" where
  "flt NaN _ = False"
| "flt _ NaN = False"
| "flt PosInf _ = False"
| "flt _ NegInf = False"
| "flt NegInf _ = True"
| "flt _ PosInf = True"
| "flt x y = (let e = min (fexp x) (fexp y) in mant_at x e < mant_at y e)"

text \<open>\<^verbatim>\<open>x <= y\<close>\<close>

fun fle :: "pyfloat \<Rightarrow> pyfloat \<Rightarrow> bool" where
  "fle NaN _ = False"
| "fle _ NaN = False"
| "fle NegInf _ = True"
| "fle _ PosInf = True"
| "fle PosInf _ = False"
| "fle _ NegInf = False"
| "fle x y = (let e = min (fexp x) (fexp y) in mant_at x e \<le> mant_at y e)"

text \<open>\<^verbatim>\<open>x == y\<close>\<close>

fun feq :: "pyfloat \<Rightarrow> pyfloat \<Rightarrow> bool" where
  "feq NaN _ = False"
| "feq _ NaN = False"
| "feq PosInf y = (y = PosInf)"
| "feq x PosInf = False"
| "feq NegInf y = (y = NegInf)"
| "feq x NegInf = False"
| "feq x y = (let e = min (fexp x) (fexp y) in mant_at x e = mant_at y e)"

text \<open>\<^verbatim>\<open>abs(x)\<close>\<close>

fun fabs :: "pyfloat \<Rightarrow> pyfloat" where
  "fabs (Finite m e) = Finite \<bar>m\<bar> e"
| "fabs NegZero = Finite 0 0"
| "fabs NegInf = PosInf"
| "fabs x = x"

text \<open>The terms that are binary64 numbers, in the form the operations return.\<close>

fun is_double :: "pyfloat \<Rightarrow> bool" where
  "is_double (Finite m e) =
     (if m = 0 then e = 0
      else odd m \<and> bit_length \<bar>m\<bar> \<le> 53 \<and> - 1074 \<le> e \<and> int (bit_length \<bar>m\<bar>) + e \<le> 1024)"
| "is_double _ = True"

fun is_finite :: "pyfloat \<Rightarrow> bool" where
  "is_finite (Finite m e) = True"
| "is_finite NegZero = True"
| "is_finite _ = False"

section \<open>The tables (models.py)\<close>

record Customer =
  c_id :: int
  c_name :: string

text \<open>
  \<^verbatim>\<open>Column(Float)\<close> is nullable: a balance or an amount read from the store is a float or
  \<^verbatim>\<open>None\<close>.
\<close>

record Account =
  a_id :: int
  a_customer_id :: int
  a_balance :: "pyfloat option"

record Transaction =
  t_id :: int
  t_from_account_id :: int
  t_to_account_id :: int
  t_amount :: "pyfloat option"

text \<open>
  The store behind \<^verbatim>\<open>get_db\<close> (module \<^verbatim>\<open>database\<close>, which hands out a session on the
  SQLite file): the rows of the three tables, in the order of insertion. It is a parameter
  of every operation, which returns it as it is after the call.
\<close>

record store =
  tbl_customers :: "Customer list"
  tbl_accounts :: "Account list"
  tbl_transactions :: "Transaction list"

definition empty_store :: store where
  "empty_store = \<lparr>tbl_customers = [], tbl_accounts = [], tbl_transactions = []\<rparr>"

text \<open>
  What the store holds, and returns, after the float \<open>x\<close> is written to a \<^verbatim>\<open>Float\<close> column:
  SQLite keeps \<^verbatim>\<open>nan\<close> as NULL and \<^verbatim>\<open>-0.0\<close> as \<^verbatim>\<open>0.0\<close>, and every other float, the
  infinities among them, as it is. \<open>sql_real_value\<close> is the same for an attribute, which
  may be \<^verbatim>\<open>None\<close>.
\<close>

fun sql_real :: "pyfloat \<Rightarrow> pyfloat option" where
  "sql_real NaN = None"
| "sql_real NegZero = Some (Finite 0 0)"
| "sql_real x = Some x"

definition sql_real_value :: "pyfloat option \<Rightarrow> pyfloat option" where
  "sql_real_value v = (case v of None \<Rightarrow> None | Some x \<Rightarrow> sql_real x)"

text \<open>
  An integer primary key that the insert leaves out: 1 in an empty table, one more
  than the largest key in use otherwise.
\<close>

definition next_id :: "int list \<Rightarrow> int" where
  "next_id ids = (case ids of [] \<Rightarrow> 1 | i # js \<Rightarrow> fold max js i + 1)"

text \<open>\<^verbatim>\<open>db.query(Customer).filter(Customer.id == i).first()\<close>, and the same on accounts.\<close>

definition customer_first :: "store \<Rightarrow> int \<Rightarrow> Customer option" where
  "customer_first db i = find (\<lambda>c. c_id c = i) (tbl_customers db)"

definition account_first :: "store \<Rightarrow> int \<Rightarrow> Account option" where
  "account_first db i = find (\<lambda>a. a_id a = i) (tbl_accounts db)"

section \<open>The GraphQL types and the exceptions (graphql\_schema.py)\<close>

record CustomerType =
  ct_id :: int
  ct_name :: string

text \<open>
  The resolvers pass a balance or an amount on as they read it: a NULL of the store is
  \<^verbatim>\<open>None\<close> in the object they build.
\<close>

record AccountType =
  at_id :: int
  at_balance :: "pyfloat option"
  at_customer :: CustomerType

record TransactionType =
  tt_id :: int
  tt_from_account :: AccountType
  tt_to_account :: AccountType
  tt_amount :: "pyfloat option"

text \<open>
  \<open>ValueError\<close> carries its message. \<open>AttributeError\<close> is what \<^verbatim>\<open>a.customer.id\<close> raises
  when the relationship \<^verbatim>\<open>a.customer\<close> is \<^verbatim>\<open>None\<close>. \<open>TypeError\<close> is what \<^verbatim>\<open><\<close>,
  \<^verbatim>\<open>-=\<close> and \<^verbatim>\<open>+=\<close> raise between \<^verbatim>\<open>None\<close> and a float.
\<close>

datatype error = ValueError string | AttributeError | TypeError

section \<open>Queries\<close>

text \<open>A list comprehension whose element expression may raise: the first exception ends it.\<close>

fun comprehension :: "('a \<Rightarrow> error + 'b) \<Rightarrow> 'a list \<Rightarrow> error + 'b list" where
  "comprehension f [] = Inr []"
| "comprehension f (x # xs) =
     (case f x of
        Inl err \<Rightarrow> Inl err
      | Inr y \<Rightarrow> (case comprehension f xs of Inl err \<Rightarrow> Inl err | Inr ys \<Rightarrow> Inr (y # ys)))"

definition to_customer_type :: "Customer \<Rightarrow> CustomerType" where
  "to_customer_type c = \<lparr>ct_id = c_id c, ct_name = c_name c\<rparr>"

text \<open>
  \<^verbatim>\<open>AccountType(id=a.id, balance=a.balance, customer=CustomerType(id=a.customer.id,
  name=a.customer.name))\<close>, where \<^verbatim>\<open>a.customer\<close> is the customer row that \<^verbatim>\<open>a.customer_id\<close> names.
\<close>

definition to_account_type :: "store \<Rightarrow> Account \<Rightarrow> error + AccountType" where
  "to_account_type db a =
     (case customer_first db (a_customer_id a) of
        None \<Rightarrow> Inl AttributeError
      | Some c \<Rightarrow> Inr \<lparr>at_id = a_id a, at_balance = a_balance a, at_customer = to_customer_type c\<rparr>)"

definition to_transaction_type :: "store \<Rightarrow> Transaction \<Rightarrow> error + TransactionType" where
  "to_transaction_type db t =
     (case account_first db (t_from_account_id t) of
        None \<Rightarrow> Inl AttributeError
      | Some fa \<Rightarrow>
          (case to_account_type db fa of
             Inl err \<Rightarrow> Inl err
           | Inr from_account \<Rightarrow>
               (case account_first db (t_to_account_id t) of
                  None \<Rightarrow> Inl AttributeError
                | Some ta \<Rightarrow>
                    (case to_account_type db ta of
                       Inl err \<Rightarrow> Inl err
                     | Inr to_account \<Rightarrow>
                         Inr \<lparr>tt_id = t_id t, tt_from_account = from_account,
                              tt_to_account = to_account, tt_amount = t_amount t\<rparr>))))"

definition customers :: "store \<Rightarrow> (error + CustomerType list) \<times> store" where
  "customers db = (Inr (map to_customer_type (tbl_customers db)), db)"

definition accounts :: "store \<Rightarrow> (error + AccountType list) \<times> store" where
  "accounts db = (comprehension (to_account_type db) (tbl_accounts db), db)"

definition transactions :: "store \<Rightarrow> (error + TransactionType list) \<times> store" where
  "transactions db = (comprehension (to_transaction_type db) (tbl_transactions db), db)"

section \<open>Mutations\<close>

definition create_customer :: "string \<Rightarrow> store \<Rightarrow> (error + CustomerType) \<times> store" where
  "create_customer name db =
     (let new_customer = \<lparr>c_id = next_id (map c_id (tbl_customers db)), c_name = name\<rparr>
      in (Inr \<lparr>ct_id = c_id new_customer, ct_name = c_name new_customer\<rparr>,
          db\<lparr>tbl_customers := tbl_customers db @ [new_customer]\<rparr>))"

text \<open>
  After the commit, \<^verbatim>\<open>db.refresh(new_account)\<close> reads the new row back: \<open>new_account\<close> is
  the row as the store holds it.
\<close>

definition create_account :: "int \<Rightarrow> pyfloat \<Rightarrow> store \<Rightarrow> (error + AccountType) \<times> store" where
  "create_account customer_id initial_balance db =
     (case customer_first db customer_id of
        None \<Rightarrow> (Inl (ValueError ''Customer not found''), db)
      | Some customer \<Rightarrow>
          (let new_account = \<lparr>a_id = next_id (map a_id (tbl_accounts db)),
                              a_customer_id = customer_id,
                              a_balance = sql_real initial_balance\<rparr>
           in (Inr \<lparr>at_id = a_id new_account, at_balance = a_balance new_account,
                    at_customer = \<lparr>ct_id = c_id customer, ct_name = c_name customer\<rparr>\<rparr>,
               db\<lparr>tbl_accounts := tbl_accounts db @ [new_account]\<rparr>)))"

text \<open>
  The session keeps one object for each primary key it has loaded (its identity map): a
  second query for the same row returns the same object. A loaded object is referred to by
  its key.
\<close>

type_synonym session = "int \<rightharpoonup> Account"

definition query_account_first :: "store \<Rightarrow> session \<Rightarrow> int \<Rightarrow> int option \<times> session" where
  "query_account_first db s i =
     (case account_first db i of
        None \<Rightarrow> (None, s)
      | Some row \<Rightarrow>
          (Some (a_id row), case s (a_id row) of None \<Rightarrow> s(a_id row \<mapsto> row) | Some obj \<Rightarrow> s))"

text \<open>\<^verbatim>\<open>r.balance\<close> and \<^verbatim>\<open>r.balance = v\<close> on the loaded object \<open>r\<close>.\<close>

definition get_balance :: "session \<Rightarrow> int \<Rightarrow> pyfloat option" where
  "get_balance s r = a_balance (the (s r))"

definition set_balance :: "session \<Rightarrow> int \<Rightarrow> pyfloat option \<Rightarrow> session" where
  "set_balance s r v = s(r \<mapsto> (the (s r))\<lparr>a_balance := v\<rparr>)"

text \<open>
  The commit writes the balance of every loaded object to its row. The object holds a
  Python value, \<^verbatim>\<open>nan\<close> and \<^verbatim>\<open>-0.0\<close> among them; the row holds what the store keeps of it.
\<close>

definition flush :: "session \<Rightarrow> Account list \<Rightarrow> Account list" where
  "flush s rows =
     map (\<lambda>row. case s (a_id row) of
                  None \<Rightarrow> row
                | Some obj \<Rightarrow> row\<lparr>a_balance := sql_real_value (a_balance obj)\<rparr>) rows"

text \<open>
  An exception leaves the function before \<^verbatim>\<open>db.commit()\<close>: what the session has changed
  in its objects is not written, and the store is as it was.
\<close>

definition transfer_funds :: "int \<Rightarrow> int \<Rightarrow> pyfloat \<Rightarrow> store \<Rightarrow> (error + bool) \<times> store" where
  "transfer_funds from_account_id to_account_id amount db =
     (let (from_account, s1) = query_account_first db Map.empty from_account_id;
          (to_account, s2) = query_account_first db s1 to_account_id
      in case (from_account, to_account) of
           (Some fa, Some ta) \<Rightarrow>
             (case get_balance s2 fa of
                None \<Rightarrow> (Inl TypeError, db)
              | Some from_balance \<Rightarrow>
                  if flt from_balance amount
                  then (Inl (ValueError ''Insufficient balance''), db)
                  else
                    (let s3 = set_balance s2 fa (Some (fsub from_balance amount))
                     in case get_balance s3 ta of
                          None \<Rightarrow> (Inl TypeError, db)
                        | Some to_balance \<Rightarrow>
                            (let s4 = set_balance s3 ta (Some (fadd to_balance amount));
                                 new_transaction =
                                   \<lparr>t_id = next_id (map t_id (tbl_transactions db)),
                                    t_from_account_id = from_account_id,
                                    t_to_account_id = to_account_id,
                                    t_amount = sql_real amount\<rparr>
                             in (Inr True,
                                 db\<lparr>tbl_accounts := flush s4 (tbl_accounts db),
                                    tbl_transactions :=
                                      tbl_transactions db @ [new_transaction]\<rparr>))))
         | _ \<Rightarrow> (Inl (ValueError ''Account not found''), db))"

section \<open>Observations and example stores\<close>

text \<open>
  The balance of the account that \<open>i\<close> names: \<open>None\<close> when the balance is NULL (or when
  no row has this id).
\<close>

definition balance_of :: "store \<Rightarrow> int \<Rightarrow> pyfloat option" where
  "balance_of db i = (case account_first db i of None \<Rightarrow> None | Some a \<Rightarrow> a_balance a)"

text \<open>Every account row has a balance, and \<^verbatim>\<open>a.balance >= 0.0\<close> holds for it.\<close>

definition nonneg_balances :: "store \<Rightarrow> bool" where
  "nonneg_balances db =
     list_all (\<lambda>a. case a_balance a of None \<Rightarrow> False | Some b \<Rightarrow> fle (Finite 0 0) b)
       (tbl_accounts db)"

text \<open>Alice with an account of \<^verbatim>\<open>100.0\<close> and Bob with an account of \<^verbatim>\<open>0.0\<close>.\<close>

definition bank0 :: store where
  "bank0 =
     \<lparr>tbl_customers = [\<lparr>c_id = 1, c_name = ''Alice''\<rparr>, \<lparr>c_id = 2, c_name = ''Bob''\<rparr>],
      tbl_accounts = [\<lparr>a_id = 1, a_customer_id = 1, a_balance = Some (Finite 25 2)\<rparr>,
                      \<lparr>a_id = 2, a_customer_id = 2, a_balance = Some (Finite 0 0)\<rparr>],
      tbl_transactions = []\<rparr>"

text \<open>Alice with an account of \<^verbatim>\<open>0.9\<close>.\<close>

definition bank9 :: store where
  "bank9 =
     \<lparr>tbl_customers = [\<lparr>c_id = 1, c_name = ''Alice''\<rparr>],
      tbl_accounts = [\<lparr>a_id = 1, a_customer_id = 1, a_balance = Some (Finite 8106479329266893 (- 53))\<rparr>],
      tbl_transactions = []\<rparr>"

text \<open>
  The references of the data model: every account row names a customer row, and every
  transaction row names two account rows.
\<close>

definition references_ok :: "store \<Rightarrow> bool" where
  "references_ok db =
     (list_all (\<lambda>a. a_customer_id a \<in> c_id ` set (tbl_customers db)) (tbl_accounts db) \<and>
      list_all (\<lambda>t. t_from_account_id t \<in> a_id ` set (tbl_accounts db) \<and>
                     t_to_account_id t \<in> a_id ` set (tbl_accounts db)) (tbl_transactions db))"

text \<open>
  Alice with an account of \<^verbatim>\<open>inf\<close> and Bob with an account of \<^verbatim>\<open>0.0\<close>. A GraphQL float
  literal beyond the range of a double, such as \<^verbatim>\<open>1e999\<close>, reaches the resolver as \<^verbatim>\<open>inf\<close>.
\<close>

definition bank_inf :: store where
  "bank_inf =
     \<lparr>tbl_customers = [\<lparr>c_id = 1, c_name = ''Alice''\<rparr>, \<lparr>c_id = 2, c_name = ''Bob''\<rparr>],
      tbl_accounts = [\<lparr>a_id = 1, a_customer_id = 1, a_balance = Some PosInf\<rparr>,
                      \<lparr>a_id = 2, a_customer_id = 2, a_balance = Some (Finite 0 0)\<rparr>],
      tbl_transactions = []\<rparr>"

text \<open>
  \<open>bank_inf\<close> after the transfer of \<^verbatim>\<open>inf\<close> from Alice to Bob: Alice's balance is NULL.
\<close>

definition bank_null :: store where
  "bank_null =
     \<lparr>tbl_customers = [\<lparr>c_id = 1, c_name = ''Alice''\<rparr>, \<lparr>c_id = 2, c_name = ''Bob''\<rparr>],
      tbl_accounts = [\<lparr>a_id = 1, a_customer_id = 1, a_balance = None\<rparr>,
                      \<lparr>a_id = 2, a_customer_id = 2, a_balance = Some PosInf\<rparr>],
      tbl_transactions = [\<lparr>t_id = 1, t_from_account_id = 1, t_to_account_id = 2,
                           t_amount = Some PosInf\<rparr>]\<rparr>"

text \<open>\<open>bank0\<close> after the transfer of \<^verbatim>\<open>40.0\<close> from Alice to Bob.\<close>

definition bank1 :: store where
  "bank1 =
     \<lparr>tbl_customers = [\<lparr>c_id = 1, c_name = ''Alice''\<rparr>, \<lparr>c_id = 2, c_name = ''Bob''\<rparr>],
      tbl_accounts = [\<lparr>a_id = 1, a_customer_id = 1, a_balance = Some (Finite 15 2)\<rparr>,
                      \<lparr>a_id = 2, a_customer_id = 2, a_balance = Some (Finite 5 3)\<rparr>],
      tbl_transactions = [\<lparr>t_id = 1, t_from_account_id = 1, t_to_account_id = 2,
                           t_amount = Some (Finite 5 3)\<rparr>]\<rparr>"

text \<open>
  \<open>v\<close> shows the account row \<open>a\<close>: its id, its balance, and the id and name of a customer
  row that \<open>a\<close> names. \<open>v\<close> shows the transaction row \<open>t\<close>: its id, its amount, and the
  two account rows that \<open>t\<close> names.
\<close>

definition account_view :: "store \<Rightarrow> AccountType \<Rightarrow> Account \<Rightarrow> bool" where
  "account_view db v a =
     (at_id v = a_id a \<and> at_balance v = a_balance a \<and>
      (\<exists>c \<in> set (tbl_customers db).
         c_id c = a_customer_id a \<and> at_customer v = \<lparr>ct_id = c_id c, ct_name = c_name c\<rparr>))"

definition transaction_view :: "store \<Rightarrow> TransactionType \<Rightarrow> Transaction \<Rightarrow> bool" where
  "transaction_view db v t =
     (tt_id v = t_id t \<and> tt_amount v = t_amount t \<and>
      (\<exists>a \<in> set (tbl_accounts db).
         a_id a = t_from_account_id t \<and> account_view db (tt_from_account v) a) \<and>
      (\<exists>a \<in> set (tbl_accounts db).
         a_id a = t_to_account_id t \<and> account_view db (tt_to_account v) a))"

section \<open>Loading and committing\<close>

lemma account_first_id: "account_first db i = Some row \<Longrightarrow> a_id row = i"
  by (auto simp: account_first_def find_Some_iff)

lemma account_first_None_iff:
  "account_first db i = None \<longleftrightarrow> i \<notin> a_id ` set (tbl_accounts db)"
  by (auto simp: account_first_def find_None_iff)

lemma query_account_first_None:
  "account_first db i = None \<Longrightarrow> query_account_first db s i = (None, s)"
  by (simp add: query_account_first_def)

lemma query_account_first_Some:
  "account_first db i = Some row \<Longrightarrow>
   query_account_first db s i = (Some i, case s i of None \<Rightarrow> s(i \<mapsto> row) | Some obj \<Rightarrow> s)"
  by (frule account_first_id) (simp add: query_account_first_def split: option.splits)

text \<open>
  Every reference that a query returns is loaded, so \<open>get_balance\<close> and \<open>set_balance\<close>
  always find their object.
\<close>

lemma query_account_first_loaded:
  "query_account_first db s i = (Some r, s') \<Longrightarrow> r = i \<and> s' r \<noteq> None"
  by (auto simp: query_account_first_def account_first_id split: option.splits)

text \<open>
  What a transfer between two rows that exist does. With \<open>i = j\<close> both references are the
  same object, and the increment reads the balance that the decrement has just written.
  A balance that is \<^verbatim>\<open>None\<close> ends the call with a \<open>TypeError\<close>.
\<close>

lemma transfer_funds_found:
  assumes "account_first db i = Some A" and "account_first db j = Some B"
  shows "transfer_funds i j amount db =
    (case a_balance A of
       None \<Rightarrow> (Inl TypeError, db)
     | Some a \<Rightarrow>
         if flt a amount then (Inl (ValueError ''Insufficient balance''), db)
         else
           (case (if i = j then Some (fsub a amount) else a_balance B) of
              None \<Rightarrow> (Inl TypeError, db)
            | Some b \<Rightarrow>
                (Inr True,
                 db\<lparr>tbl_accounts :=
                      map (\<lambda>row. if a_id row = j
                                  then row\<lparr>a_balance := sql_real (fadd b amount)\<rparr>
                                  else if a_id row = i
                                       then row\<lparr>a_balance := sql_real (fsub a amount)\<rparr>
                                       else row) (tbl_accounts db),
                    tbl_transactions := tbl_transactions db @
                      [\<lparr>t_id = next_id (map t_id (tbl_transactions db)), t_from_account_id = i,
                        t_to_account_id = j, t_amount = sql_real amount\<rparr>]\<rparr>)))"
proof (cases "i = j")
  case True
  with assms have "B = A" by simp
  with assms True show ?thesis
    by (cases "a_balance A")
       (simp_all add: transfer_funds_def query_account_first_Some get_balance_def
          set_balance_def flush_def sql_real_value_def Let_def
          del: fadd.simps flt.simps sql_real.simps)
next
  case False
  with assms show ?thesis
    by (cases "a_balance A"; cases "a_balance B")
       (simp_all add: transfer_funds_def query_account_first_Some get_balance_def
          set_balance_def flush_def sql_real_value_def Let_def
          del: fadd.simps flt.simps sql_real.simps)
qed

lemma transfer_funds_distinct:
  assumes "account_first db i = Some A" and "account_first db j = Some B" and "i \<noteq> j"
    and "a_balance A = Some a" and "a_balance B = Some b" and "\<not> flt a amount"
  shows "transfer_funds i j amount db =
    (Inr True,
     db\<lparr>tbl_accounts :=
          map (\<lambda>row. if a_id row = j then row\<lparr>a_balance := sql_real (fadd b amount)\<rparr>
                      else if a_id row = i then row\<lparr>a_balance := sql_real (fsub a amount)\<rparr>
                      else row) (tbl_accounts db),
        tbl_transactions := tbl_transactions db @
          [\<lparr>t_id = next_id (map t_id (tbl_transactions db)), t_from_account_id = i,
            t_to_account_id = j, t_amount = sql_real amount\<rparr>]\<rparr>)"
  using assms(3-6)
  by (simp add: transfer_funds_found [OF assms(1,2)] del: fadd.simps flt.simps sql_real.simps)

lemma transfer_funds_same:
  assumes "account_first db i = Some A" and "a_balance A = Some a" and "\<not> flt a amount"
  shows "transfer_funds i i amount db =
    (Inr True,
     db\<lparr>tbl_accounts :=
          map (\<lambda>row. if a_id row = i
                      then row\<lparr>a_balance := sql_real (fadd (fsub a amount) amount)\<rparr>
                      else row) (tbl_accounts db),
        tbl_transactions := tbl_transactions db @
          [\<lparr>t_id = next_id (map t_id (tbl_transactions db)), t_from_account_id = i,
            t_to_account_id = i, t_amount = sql_real amount\<rparr>]\<rparr>)"
  using assms(2,3)
  by (simp add: transfer_funds_found [OF assms(1) assms(1)]
      del: fadd.simps flt.simps sql_real.simps)

lemma transfer_funds_null_source:
  assumes "account_first db i = Some A" and "account_first db j = Some B"
    and "a_balance A = None"
  shows "transfer_funds i j amount db = (Inl TypeError, db)"
  using assms(3) by (simp add: transfer_funds_found [OF assms(1,2)])

lemma transfer_funds_null_destination:
  assumes "account_first db i = Some A" and "account_first db j = Some B" and "i \<noteq> j"
    and "a_balance A = Some a" and "a_balance B = None" and "\<not> flt a amount"
  shows "transfer_funds i j amount db = (Inl TypeError, db)"
  using assms(3-6) by (simp add: transfer_funds_found [OF assms(1,2)] del: flt.simps)

lemma transfer_funds_missing:
  assumes "account_first db i = None \<or> account_first db j = None"
  shows "transfer_funds i j amount db = (Inl (ValueError ''Account not found''), db)"
  using assms
  by (cases "account_first db i"; cases "account_first db j")
     (auto simp: transfer_funds_def query_account_first_Some query_account_first_None)

lemma find_map_same_key:
  assumes "\<And>x. P (f x) = P x"
  shows "find P (map f xs) = map_option f (find P xs)"
  using assms by (induction xs) auto

lemma balance_of_updated:
  assumes "\<And>row. a_id (f row) = a_id row"
  shows "balance_of (db\<lparr>tbl_accounts := map f (tbl_accounts db), tbl_transactions := ts\<rparr>) k =
         (case account_first db k of None \<Rightarrow> None | Some row \<Rightarrow> a_balance (f row))"
  by (simp add: balance_of_def account_first_def find_map_same_key [where f = f] assms
      split: option.splits)

section \<open>The order of floats\<close>

lemma fle_not_flt: "fle x y \<Longrightarrow> \<not> flt y x"
  by (cases x; cases y) (auto simp: Let_def min.commute)

lemma fle_not_NaN: "fle x y \<Longrightarrow> x \<noteq> NaN \<and> y \<noteq> NaN"
  by (cases x; cases y) simp_all

section \<open>What the store keeps of a float\<close>

lemma sql_real_None_iff: "sql_real x = None \<longleftrightarrow> x = NaN"
  by (cases x) simp_all

lemma sql_real_feq: "x \<noteq> NaN \<Longrightarrow> \<exists>y. sql_real x = Some y \<and> feq y x"
  by (cases x) simp_all

lemma sql_real_not_NaN: "sql_real x \<noteq> Some NaN"
  by (cases x) simp_all

lemma normalize_float_not_NaN: "normalize_float m e \<noteq> NaN"
proof (induction m e rule: normalize_float.induct)
  case (1 m e)
  then show ?case
    by (simp add: normalize_float.simps [of m e])
qed

lemma round53_not_NaN: "round53 k e \<noteq> NaN"
  by (simp add: round53_def Let_def normalize_float_not_NaN)

text \<open>Only \<^verbatim>\<open>inf - inf\<close> and an operand that is \<^verbatim>\<open>nan\<close> give \<^verbatim>\<open>nan\<close>.\<close>

lemma fadd_not_NaN: "x \<noteq> NaN \<Longrightarrow> is_finite y \<Longrightarrow> fadd x y \<noteq> NaN"
  by (cases x; cases y) (simp_all add: Let_def round53_not_NaN)

lemma fsub_not_NaN: "x \<noteq> NaN \<Longrightarrow> is_finite y \<Longrightarrow> fsub x y \<noteq> NaN"
  unfolding fsub_def by (rule fadd_not_NaN) (cases y; simp_all)+

section \<open>Floats of the examples\<close>

lemma fsub_100_40: "fsub (Finite 25 2) (Finite 5 3) = Finite 15 2"
  by code_simp

lemma fadd_0_40: "fadd (Finite 0 0) (Finite 5 3) = Finite 5 3"
  by code_simp

lemma bank0_accounts:
  "account_first bank0 1 = Some \<lparr>a_id = 1, a_customer_id = 1, a_balance = Some (Finite 25 2)\<rparr>"
  "account_first bank0 2 = Some \<lparr>a_id = 2, a_customer_id = 2, a_balance = Some (Finite 0 0)\<rparr>"
  by (simp_all add: account_first_def bank0_def)

lemma bank_inf_accounts:
  "account_first bank_inf 1 = Some \<lparr>a_id = 1, a_customer_id = 1, a_balance = Some PosInf\<rparr>"
  "account_first bank_inf 2 = Some \<lparr>a_id = 2, a_customer_id = 2, a_balance = Some (Finite 0 0)\<rparr>"
  by (simp_all add: account_first_def bank_inf_def)

lemma bank_null_accounts:
  "account_first bank_null 1 = Some \<lparr>a_id = 1, a_customer_id = 1, a_balance = None\<rparr>"
  "account_first bank_null 2 = Some \<lparr>a_id = 2, a_customer_id = 2, a_balance = Some PosInf\<rparr>"
  by (simp_all add: account_first_def bank_null_def)

lemma fneg_negative: "flt a (Finite 0 0) \<Longrightarrow> fneg a = fabs a \<and> fneg (fabs a) = a"
  by (cases a) (auto simp: Let_def zero_less_mult_iff mult_less_0_iff)

lemma fsub_09_02:
  "fsub (Finite 8106479329266893 (- 53)) (Finite 3602879701896397 (- 54)) = Finite 3152519739159347 (- 52)"
  by code_simp

lemma fadd_07_02:
  "fadd (Finite 3152519739159347 (- 52)) (Finite 3602879701896397 (- 54)) = Finite 2026619832316723 (- 51)"
  by code_simp

lemma is_double_examples:
  "is_double (Finite 8106479329266893 (- 53))" "is_double (Finite 3602879701896397 (- 54))"
  "is_double (Finite 25 2)" "is_double (Finite 5 3)" "is_double (Finite (- 5) 0)"
  by code_simp+

lemma fsub_100_m5: "fsub (Finite 25 2) (Finite (- 5) 0) = Finite 105 0"
  by code_simp

lemma fadd_105_m5: "fadd (Finite 105 0) (Finite (- 5) 0) = Finite 25 2"
  by code_simp

lemma fadd_100_5: "fadd (Finite 25 2) (Finite 5 0) = Finite 105 0"
  by code_simp

lemma fadd_0_m5: "fadd (Finite 0 0) (Finite (- 5) 0) = Finite (- 5) 0"
  by code_simp

lemma fsub_0_5: "fsub (Finite 0 0) (Finite 5 0) = Finite (- 5) 0"
  by code_simp

lemma fadd_60_40: "fadd (Finite 15 2) (Finite 5 3) = Finite 25 2"
  by code_simp

lemma bank9_account:
  "account_first bank9 1 = Some \<lparr>a_id = 1, a_customer_id = 1, a_balance = Some (Finite 8106479329266893 (- 53))\<rparr>"
  by (simp add: account_first_def bank9_def)

section \<open>Transfers\<close>

text \<open>
  C1, as amended. A transfer of a finite amount between two distinct existing accounts whose
  balances are numbers (not NULL and not \<^verbatim>\<open>nan\<close>), with
  \<^verbatim>\<open>from_account.balance >= amount >= 0\<close>, returns \<^verbatim>\<open>True\<close>. Afterwards the store holds, as
  numbers, the source balance \<^verbatim>\<open>from_account.balance - amount\<close> and the destination balance
  \<^verbatim>\<open>to_account.balance + amount\<close> in float arithmetic, and the transactions are the old ones
  followed by one new row that records \<open>(from_account_id, to_account_id, amount)\<close>.
\<close>

theorem transfer_funds_moves_amount:
  assumes "account_first db from_account_id = Some A"
    and "account_first db to_account_id = Some B"
    and "from_account_id \<noteq> to_account_id"
    and "a_balance A = Some a"
    and "a_balance B = Some b"
    and "b \<noteq> NaN"
    and "is_finite amount"
    and "fle amount a"
    and "fle (Finite 0 0) amount"
  shows "fst (transfer_funds from_account_id to_account_id amount db) = Inr True \<and>
         balance_of (snd (transfer_funds from_account_id to_account_id amount db)) from_account_id
           = sql_real (fsub a amount) \<and>
         fsub a amount \<noteq> NaN \<and>
         balance_of (snd (transfer_funds from_account_id to_account_id amount db)) to_account_id
           = sql_real (fadd b amount) \<and>
         fadd b amount \<noteq> NaN \<and>
         tbl_transactions (snd (transfer_funds from_account_id to_account_id amount db))
           = tbl_transactions db @
             [\<lparr>t_id = next_id (map t_id (tbl_transactions db)),
               t_from_account_id = from_account_id, t_to_account_id = to_account_id,
               t_amount = sql_real amount\<rparr>] \<and>
         sql_real amount \<noteq> None"
proof -
  have nlt: "\<not> flt a amount"
    using assms(8) by (rule fle_not_flt)
  have ids: "a_id A = from_account_id" "a_id B = to_account_id"
    using assms(1,2) by (simp_all add: account_first_id)
  have "a \<noteq> NaN" and "amount \<noteq> NaN"
    using fle_not_NaN [OF assms(8)] by simp_all
  then have numbers: "fsub a amount \<noteq> NaN" "fadd b amount \<noteq> NaN" "sql_real amount \<noteq> None"
    using assms(6,7) by (simp_all add: fsub_not_NaN fadd_not_NaN sql_real_None_iff)
  have "fst (transfer_funds from_account_id to_account_id amount db) = Inr True \<and>
      balance_of (snd (transfer_funds from_account_id to_account_id amount db)) from_account_id
        = sql_real (fsub a amount) \<and>
      balance_of (snd (transfer_funds from_account_id to_account_id amount db)) to_account_id
        = sql_real (fadd b amount) \<and>
      tbl_transactions (snd (transfer_funds from_account_id to_account_id amount db))
        = tbl_transactions db @
          [\<lparr>t_id = next_id (map t_id (tbl_transactions db)),
            t_from_account_id = from_account_id, t_to_account_id = to_account_id,
            t_amount = sql_real amount\<rparr>]"
    using assms(1-3) ids
    by (simp add: transfer_funds_distinct [OF assms(1-5) nlt] balance_of_updated
        del: fadd.simps sql_real.simps)
  with numbers show ?thesis
    by simp
qed

text \<open>Alice's \<^verbatim>\<open>100.0\<close> and Bob's \<^verbatim>\<open>0.0\<close> become \<^verbatim>\<open>60.0\<close> and \<^verbatim>\<open>40.0\<close>.\<close>

theorem transfer_funds_moves_amount_witness:
  "account_first bank0 1 = Some \<lparr>a_id = 1, a_customer_id = 1, a_balance = Some (Finite 25 2)\<rparr> \<and>
   account_first bank0 2 = Some \<lparr>a_id = 2, a_customer_id = 2, a_balance = Some (Finite 0 0)\<rparr> \<and>
   (1::int) \<noteq> 2 \<and> Finite 0 0 \<noteq> NaN \<and> is_finite (Finite 5 3) \<and>
   fle (Finite 5 3) (Finite 25 2) \<and> fle (Finite 0 0) (Finite 5 3) \<and>
   fst (transfer_funds 1 2 (Finite 5 3) bank0) = Inr True \<and>
   balance_of (snd (transfer_funds 1 2 (Finite 5 3) bank0)) 1 = Some (Finite 15 2) \<and>
   balance_of (snd (transfer_funds 1 2 (Finite 5 3) bank0)) 2 = Some (Finite 5 3) \<and>
   tbl_transactions (snd (transfer_funds 1 2 (Finite 5 3) bank0)) =
     [\<lparr>t_id = 1, t_from_account_id = 1, t_to_account_id = 2, t_amount = Some (Finite 5 3)\<rparr>]"
proof -
  have d: "(1::int) \<noteq> 2" by simp
  have a: "a_balance \<lparr>a_id = 1, a_customer_id = 1, a_balance = Some (Finite 25 2)\<rparr>
      = Some (Finite 25 2)"
    and b: "a_balance \<lparr>a_id = 2, a_customer_id = 2, a_balance = Some (Finite 0 0)\<rparr>
      = Some (Finite 0 0)"
    by simp_all
  have n: "Finite 0 0 \<noteq> NaN" and f: "is_finite (Finite 5 3)"
    and le: "fle (Finite 5 3) (Finite 25 2)" and nn: "fle (Finite 0 0) (Finite 5 3)"
    by simp_all
  have t: "tbl_transactions bank0 = []"
    by (simp add: bank0_def)
  show ?thesis
    using transfer_funds_moves_amount [OF bank0_accounts d a b n f le nn] bank0_accounts le nn
    by (simp add: fsub_100_40 fadd_0_40 t next_id_def del: fadd.simps)
qed

text \<open>
  C1 as stated fails. On \<open>bank_inf\<close>, Alice's balance is \<^verbatim>\<open>inf\<close> and
  \<^verbatim>\<open>inf >= inf >= 0\<close> holds: the transfer of \<^verbatim>\<open>inf\<close> to Bob returns \<^verbatim>\<open>True\<close> and leaves
  \<^verbatim>\<open>inf - inf\<close>, which is \<^verbatim>\<open>nan\<close> and which the store keeps as NULL. That store is
  \<open>bank_null\<close>; on it, Bob's balance is \<^verbatim>\<open>inf\<close> and \<^verbatim>\<open>inf >= 1.0 >= 0\<close> holds, and the
  transfer of \<^verbatim>\<open>1.0\<close> from Bob to Alice raises a \<open>TypeError\<close> at \<^verbatim>\<open>to_account.balance += amount\<close>
  and changes nothing.
\<close>

theorem transfer_funds_moves_amount_counterexample:
  "account_first bank_inf 1 = Some \<lparr>a_id = 1, a_customer_id = 1, a_balance = Some PosInf\<rparr> \<and>
   account_first bank_inf 2 = Some \<lparr>a_id = 2, a_customer_id = 2, a_balance = Some (Finite 0 0)\<rparr> \<and>
   fle PosInf PosInf \<and> fle (Finite 0 0) PosInf \<and>
   fst (transfer_funds 1 2 PosInf bank_inf) = Inr True \<and>
   snd (transfer_funds 1 2 PosInf bank_inf) = bank_null \<and>
   account_first bank_null 1 = Some \<lparr>a_id = 1, a_customer_id = 1, a_balance = None\<rparr> \<and>
   account_first bank_null 2 = Some \<lparr>a_id = 2, a_customer_id = 2, a_balance = Some PosInf\<rparr> \<and>
   fle (Finite 1 0) PosInf \<and> fle (Finite 0 0) (Finite 1 0) \<and>
   transfer_funds 2 1 (Finite 1 0) bank_null = (Inl TypeError, bank_null)"
proof -
  have d: "(1::int) \<noteq> 2" and d': "(2::int) \<noteq> 1"
    by simp_all
  have nlt: "\<not> flt PosInf PosInf" and nlt': "\<not> flt PosInf (Finite 1 0)"
    by simp_all
  have a: "a_balance \<lparr>a_id = 1, a_customer_id = 1, a_balance = Some PosInf\<rparr> = Some PosInf"
    and b: "a_balance \<lparr>a_id = 2, a_customer_id = 2, a_balance = Some (Finite 0 0)\<rparr>
      = Some (Finite 0 0)"
    and a': "a_balance \<lparr>a_id = 2, a_customer_id = 2, a_balance = Some PosInf\<rparr> = Some PosInf"
    and b': "a_balance \<lparr>a_id = 1, a_customer_id = 1, a_balance = None\<rparr> = None"
    by simp_all
  have moved: "transfer_funds 1 2 PosInf bank_inf =
      (Inr True,
       bank_inf\<lparr>tbl_accounts :=
                  map (\<lambda>row. if a_id row = 2 then row\<lparr>a_balance := Some PosInf\<rparr>
                              else if a_id row = 1 then row\<lparr>a_balance := None\<rparr> else row)
                    (tbl_accounts bank_inf),
                tbl_transactions := tbl_transactions bank_inf @
                  [\<lparr>t_id = next_id (map t_id (tbl_transactions bank_inf)),
                    t_from_account_id = 1, t_to_account_id = 2, t_amount = Some PosInf\<rparr>]\<rparr>)"
    by (simp add: transfer_funds_distinct [OF bank_inf_accounts d a b nlt] fsub_def)
  have first: "fst (transfer_funds 1 2 PosInf bank_inf) = Inr True \<and>
      snd (transfer_funds 1 2 PosInf bank_inf) = bank_null"
    unfolding moved by (simp add: bank_inf_def bank_null_def next_id_def)
  have second: "transfer_funds 2 1 (Finite 1 0) bank_null = (Inl TypeError, bank_null)"
    by (rule transfer_funds_null_destination
          [OF bank_null_accounts(2) bank_null_accounts(1) d' a' b' nlt'])
  show ?thesis
    using first second bank_inf_accounts bank_null_accounts
    by simp
qed

text \<open>
  C2. A transfer between two existing accounts with \<^verbatim>\<open>amount > from_account.balance\<close>
  raises \<^verbatim>\<open>ValueError("Insufficient balance")\<close>, the InsufficientFundsError of the
  specification, and leaves the store as it was: no balance changes and no
  transaction row is added.
\<close>

theorem transfer_funds_insufficient:
  assumes "account_first db from_account_id = Some A"
    and "account_first db to_account_id = Some B"
    and "a_balance A = Some a"
    and "flt a amount"
  shows "transfer_funds from_account_id to_account_id amount db =
         (Inl (ValueError ''Insufficient balance''), db)"
  using assms(3,4) by (simp add: transfer_funds_found [OF assms(1,2)] del: flt.simps)

text \<open>\<^verbatim>\<open>1000.0\<close> from Alice's \<^verbatim>\<open>100.0\<close>.\<close>

theorem transfer_funds_insufficient_witness:
  "account_first bank0 1 = Some \<lparr>a_id = 1, a_customer_id = 1, a_balance = Some (Finite 25 2)\<rparr> \<and>
   account_first bank0 2 = Some \<lparr>a_id = 2, a_customer_id = 2, a_balance = Some (Finite 0 0)\<rparr> \<and>
   flt (Finite 25 2) (Finite 125 3) \<and>
   transfer_funds 1 2 (Finite 125 3) bank0 = (Inl (ValueError ''Insufficient balance''), bank0)"
proof -
  have a: "a_balance \<lparr>a_id = 1, a_customer_id = 1, a_balance = Some (Finite 25 2)\<rparr>
      = Some (Finite 25 2)"
    by simp
  have lt: "flt (Finite 25 2) (Finite 125 3)"
    by simp
  show ?thesis
    using transfer_funds_insufficient [OF bank0_accounts a lt] bank0_accounts lt
    by simp
qed

text \<open>
  C3. A transfer in which one of the two ids names no account row raises
  \<^verbatim>\<open>ValueError("Account not found")\<close>, the NotFoundError of the specification, and leaves
  the store as it was: no balance changes and no transaction row is added.
\<close>

theorem transfer_funds_not_found:
  assumes "from_account_id \<notin> a_id ` set (tbl_accounts db) \<or>
           to_account_id \<notin> a_id ` set (tbl_accounts db)"
  shows "transfer_funds from_account_id to_account_id amount db =
         (Inl (ValueError ''Account not found''), db)"
  using assms by (intro transfer_funds_missing) (simp add: account_first_None_iff)

theorem transfer_funds_not_found_witness:
  "(7::int) \<notin> a_id ` set (tbl_accounts bank0) \<and>
   transfer_funds 1 7 (Finite 5 3) bank0 = (Inl (ValueError ''Account not found''), bank0)"
proof -
  have h: "(7::int) \<notin> a_id ` set (tbl_accounts bank0)"
    by (simp add: bank0_def)
  show ?thesis
    using transfer_funds_not_found [of 1 bank0 7 "Finite 5 3"] h by simp
qed

text \<open>
  C9, as amended. A transfer from an existing account to itself with
  \<^verbatim>\<open>balance >= amount\<close> returns \<^verbatim>\<open>True\<close> and adds one transaction row with this account
  as source and as destination and with the given amount. Decrement and increment apply to
  the same object, so the balance that the store holds afterwards is what it keeps of
  \<^verbatim>\<open>(balance - amount) + amount\<close> in float arithmetic, which need not be the old balance.
\<close>

theorem transfer_funds_self:
  assumes "account_first db account_id = Some A"
    and "a_balance A = Some a"
    and "fle amount a"
  shows "fst (transfer_funds account_id account_id amount db) = Inr True \<and>
         balance_of (snd (transfer_funds account_id account_id amount db)) account_id
           = sql_real (fadd (fsub a amount) amount) \<and>
         tbl_transactions (snd (transfer_funds account_id account_id amount db))
           = tbl_transactions db @
             [\<lparr>t_id = next_id (map t_id (tbl_transactions db)),
               t_from_account_id = account_id, t_to_account_id = account_id,
               t_amount = sql_real amount\<rparr>] \<and>
         sql_real amount \<noteq> None"
proof -
  have nlt: "\<not> flt a amount"
    using assms(3) by (rule fle_not_flt)
  have "a_id A = account_id"
    using assms(1) by (rule account_first_id)
  moreover have "sql_real amount \<noteq> None"
    using fle_not_NaN [OF assms(3)] by (simp add: sql_real_None_iff)
  ultimately show ?thesis
    using assms(1)
    by (simp add: transfer_funds_same [OF assms(1,2) nlt] balance_of_updated
        del: fadd.simps sql_real.simps)
qed

text \<open>\<^verbatim>\<open>(100.0 - 40.0) + 40.0\<close> is \<^verbatim>\<open>100.0\<close>.\<close>

theorem transfer_funds_self_witness:
  "account_first bank0 1 = Some \<lparr>a_id = 1, a_customer_id = 1, a_balance = Some (Finite 25 2)\<rparr> \<and>
   fle (Finite 5 3) (Finite 25 2) \<and>
   fst (transfer_funds 1 1 (Finite 5 3) bank0) = Inr True \<and>
   balance_of (snd (transfer_funds 1 1 (Finite 5 3) bank0)) 1 = Some (Finite 25 2) \<and>
   tbl_transactions (snd (transfer_funds 1 1 (Finite 5 3) bank0)) =
     [\<lparr>t_id = 1, t_from_account_id = 1, t_to_account_id = 1, t_amount = Some (Finite 5 3)\<rparr>]"
proof -
  have a: "a_balance \<lparr>a_id = 1, a_customer_id = 1, a_balance = Some (Finite 25 2)\<rparr>
      = Some (Finite 25 2)"
    by simp
  have le: "fle (Finite 5 3) (Finite 25 2)"
    by simp
  have t: "tbl_transactions bank0 = []"
    by (simp add: bank0_def)
  show ?thesis
    using transfer_funds_self [OF bank0_accounts(1) a le] bank0_accounts(1) le
    by (simp add: fsub_100_40 fadd_60_40 t next_id_def del: fadd.simps)
qed

text \<open>
  C9 as stated fails: with a balance of \<^verbatim>\<open>0.9\<close>, the self-transfer of \<^verbatim>\<open>0.2\<close> leaves
  \<^verbatim>\<open>(0.9 - 0.2) + 0.2 = 0.8999999999999999\<close>, which is less than \<^verbatim>\<open>0.9\<close>.
\<close>

theorem transfer_funds_self_counterexample:
  "account_first bank9 1 = Some \<lparr>a_id = 1, a_customer_id = 1, a_balance = Some (Finite 8106479329266893 (- 53))\<rparr> \<and>
   is_double (Finite 8106479329266893 (- 53)) \<and> is_double (Finite 3602879701896397 (- 54)) \<and>
   fle (Finite 3602879701896397 (- 54)) (Finite 8106479329266893 (- 53)) \<and>
   fst (transfer_funds 1 1 (Finite 3602879701896397 (- 54)) bank9) = Inr True \<and>
   balance_of (snd (transfer_funds 1 1 (Finite 3602879701896397 (- 54)) bank9)) 1
     = Some (Finite 2026619832316723 (- 51)) \<and>
   balance_of bank9 1 = Some (Finite 8106479329266893 (- 53)) \<and>
   flt (Finite 2026619832316723 (- 51)) (Finite 8106479329266893 (- 53))"
proof -
  have a: "a_balance \<lparr>a_id = 1, a_customer_id = 1,
                      a_balance = Some (Finite 8106479329266893 (- 53))\<rparr>
      = Some (Finite 8106479329266893 (- 53))"
    by simp
  have le: "fle (Finite 3602879701896397 (- 54)) (Finite 8106479329266893 (- 53))"
    and lt: "flt (Finite 2026619832316723 (- 51)) (Finite 8106479329266893 (- 53))"
    by simp_all
  have nlt: "\<not> flt (Finite 8106479329266893 (- 53)) (Finite 3602879701896397 (- 54))"
    using le by (rule fle_not_flt)
  have before: "balance_of bank9 1 = Some (Finite 8106479329266893 (- 53))"
    by (simp add: balance_of_def bank9_account)
  have after:
    "fst (transfer_funds 1 1 (Finite 3602879701896397 (- 54)) bank9) = Inr True \<and>
     balance_of (snd (transfer_funds 1 1 (Finite 3602879701896397 (- 54)) bank9)) 1
       = Some (Finite 2026619832316723 (- 51))"
    by (simp add: transfer_funds_same [OF bank9_account a nlt] balance_of_updated
        bank9_account fsub_09_02 fadd_07_02 del: fadd.simps flt.simps)
  show ?thesis
    using le lt before after bank9_account is_double_examples(1,2)
    by (simp del: fadd.simps flt.simps fle.simps is_double.simps)
qed

text \<open>
  C10, as amended. A transfer of a finite negative amount between two distinct existing
  accounts, with \<^verbatim>\<open>from_account.balance >= amount\<close> and a destination balance that is a
  number (not NULL and not \<^verbatim>\<open>nan\<close>), is not rejected: it returns \<^verbatim>\<open>True\<close>, the store holds,
  as numbers, the source balance \<^verbatim>\<open>from_account.balance + abs(amount)\<close> and the destination
  balance \<^verbatim>\<open>to_account.balance - abs(amount)\<close> in float arithmetic, and one transaction row
  with the negative amount is added.
\<close>

theorem transfer_funds_negative_amount:
  assumes "account_first db from_account_id = Some A"
    and "account_first db to_account_id = Some B"
    and "from_account_id \<noteq> to_account_id"
    and "a_balance A = Some a"
    and "a_balance B = Some b"
    and "b \<noteq> NaN"
    and "is_finite amount"
    and "flt amount (Finite 0 0)"
    and "fle amount a"
  shows "fst (transfer_funds from_account_id to_account_id amount db) = Inr True \<and>
         balance_of (snd (transfer_funds from_account_id to_account_id amount db)) from_account_id
           = sql_real (fadd a (fabs amount)) \<and>
         fadd a (fabs amount) \<noteq> NaN \<and>
         balance_of (snd (transfer_funds from_account_id to_account_id amount db)) to_account_id
           = sql_real (fsub b (fabs amount)) \<and>
         fsub b (fabs amount) \<noteq> NaN \<and>
         tbl_transactions (snd (transfer_funds from_account_id to_account_id amount db))
           = tbl_transactions db @
             [\<lparr>t_id = next_id (map t_id (tbl_transactions db)),
               t_from_account_id = from_account_id, t_to_account_id = to_account_id,
               t_amount = Some amount\<rparr>]"
proof -
  have nlt: "\<not> flt a amount"
    using assms(9) by (rule fle_not_flt)
  have ids: "a_id A = from_account_id" "a_id B = to_account_id"
    using assms(1,2) by (simp_all add: account_first_id)
  have abs: "fsub a amount = fadd a (fabs amount)" "fadd b amount = fsub b (fabs amount)"
    using fneg_negative [OF assms(8)] by (simp_all add: fsub_def)
  have "a \<noteq> NaN"
    using fle_not_NaN [OF assms(9)] by simp
  then have "fsub a amount \<noteq> NaN" and "fadd b amount \<noteq> NaN"
    using assms(6,7) by (simp_all add: fsub_not_NaN fadd_not_NaN)
  then have numbers: "fadd a (fabs amount) \<noteq> NaN" "fsub b (fabs amount) \<noteq> NaN"
    using abs by simp_all
  have row: "sql_real amount = Some amount"
    using assms(7,8) by (cases amount) simp_all
  have "fst (transfer_funds from_account_id to_account_id amount db) = Inr True \<and>
      balance_of (snd (transfer_funds from_account_id to_account_id amount db)) from_account_id
        = sql_real (fsub a amount) \<and>
      balance_of (snd (transfer_funds from_account_id to_account_id amount db)) to_account_id
        = sql_real (fadd b amount) \<and>
      tbl_transactions (snd (transfer_funds from_account_id to_account_id amount db))
        = tbl_transactions db @
          [\<lparr>t_id = next_id (map t_id (tbl_transactions db)),
            t_from_account_id = from_account_id, t_to_account_id = to_account_id,
            t_amount = sql_real amount\<rparr>]"
    using assms(1-3) ids
    by (simp add: transfer_funds_distinct [OF assms(1-5) nlt] balance_of_updated
        del: fadd.simps sql_real.simps)
  with numbers show ?thesis
    unfolding abs row by simp
qed

text \<open>
  \<^verbatim>\<open>-5.0\<close> from Alice's \<^verbatim>\<open>100.0\<close> to Bob's \<^verbatim>\<open>0.0\<close>: Alice has \<^verbatim>\<open>105.0\<close> and Bob has
  \<^verbatim>\<open>-5.0\<close>, below zero.
\<close>

theorem transfer_funds_negative_amount_witness:
  "account_first bank0 1 = Some \<lparr>a_id = 1, a_customer_id = 1, a_balance = Some (Finite 25 2)\<rparr> \<and>
   account_first bank0 2 = Some \<lparr>a_id = 2, a_customer_id = 2, a_balance = Some (Finite 0 0)\<rparr> \<and>
   (1::int) \<noteq> 2 \<and> Finite 0 0 \<noteq> NaN \<and> is_finite (Finite (- 5) 0) \<and>
   flt (Finite (- 5) 0) (Finite 0 0) \<and> fle (Finite (- 5) 0) (Finite 25 2) \<and>
   fst (transfer_funds 1 2 (Finite (- 5) 0) bank0) = Inr True \<and>
   balance_of (snd (transfer_funds 1 2 (Finite (- 5) 0) bank0)) 1 = Some (Finite 105 0) \<and>
   balance_of (snd (transfer_funds 1 2 (Finite (- 5) 0) bank0)) 2 = Some (Finite (- 5) 0) \<and>
   tbl_transactions (snd (transfer_funds 1 2 (Finite (- 5) 0) bank0)) =
     [\<lparr>t_id = 1, t_from_account_id = 1, t_to_account_id = 2, t_amount = Some (Finite (- 5) 0)\<rparr>]"
proof -
  have d: "(1::int) \<noteq> 2" by simp
  have a: "a_balance \<lparr>a_id = 1, a_customer_id = 1, a_balance = Some (Finite 25 2)\<rparr>
      = Some (Finite 25 2)"
    and b: "a_balance \<lparr>a_id = 2, a_customer_id = 2, a_balance = Some (Finite 0 0)\<rparr>
      = Some (Finite 0 0)"
    by simp_all
  have n: "Finite 0 0 \<noteq> NaN" and f: "is_finite (Finite (- 5) 0)"
    and neg: "flt (Finite (- 5) 0) (Finite 0 0)"
    and le: "fle (Finite (- 5) 0) (Finite 25 2)"
    by simp_all
  have t: "tbl_transactions bank0 = []"
    by (simp add: bank0_def)
  show ?thesis
    using transfer_funds_negative_amount [OF bank0_accounts d a b n f neg le]
      bank0_accounts neg le
    by (simp add: fadd_100_5 fsub_0_5 t next_id_def del: fadd.simps)
qed

text \<open>
  C10 as stated fails. When both ids name the same account: the transfer of \<^verbatim>\<open>-5.0\<close> from
  Alice's account to itself leaves \<^verbatim>\<open>100.0\<close>, not \<^verbatim>\<open>105.0\<close>. When the amount is \<^verbatim>\<open>-inf\<close>:
  on \<open>bank_inf\<close>, the transfer of \<^verbatim>\<open>-inf\<close> from Bob's \<^verbatim>\<open>0.0\<close> to Alice's \<^verbatim>\<open>inf\<close> returns
  \<^verbatim>\<open>True\<close> and leaves \<^verbatim>\<open>inf + -inf\<close>, which is \<^verbatim>\<open>nan\<close> and which the store keeps as NULL.
  When the destination balance is NULL: on \<open>bank_null\<close>, the transfer of \<^verbatim>\<open>-5.0\<close> from Bob's
  \<^verbatim>\<open>inf\<close> to Alice raises a \<open>TypeError\<close> and changes nothing.
\<close>

theorem transfer_funds_negative_amount_counterexample:
  "account_first bank0 1 = Some \<lparr>a_id = 1, a_customer_id = 1, a_balance = Some (Finite 25 2)\<rparr> \<and>
   flt (Finite (- 5) 0) (Finite 0 0) \<and> fle (Finite (- 5) 0) (Finite 25 2) \<and>
   fst (transfer_funds 1 1 (Finite (- 5) 0) bank0) = Inr True \<and>
   balance_of (snd (transfer_funds 1 1 (Finite (- 5) 0) bank0)) 1 = Some (Finite 25 2) \<and>
   fadd (Finite 25 2) (fabs (Finite (- 5) 0)) = Finite 105 0 \<and>
   flt (Finite 25 2) (Finite 105 0) \<and>
   account_first bank_inf 2 = Some \<lparr>a_id = 2, a_customer_id = 2, a_balance = Some (Finite 0 0)\<rparr> \<and>
   account_first bank_inf 1 = Some \<lparr>a_id = 1, a_customer_id = 1, a_balance = Some PosInf\<rparr> \<and>
   flt NegInf (Finite 0 0) \<and> fle NegInf (Finite 0 0) \<and>
   fst (transfer_funds 2 1 NegInf bank_inf) = Inr True \<and>
   account_first (snd (transfer_funds 2 1 NegInf bank_inf)) 1
     = Some \<lparr>a_id = 1, a_customer_id = 1, a_balance = None\<rparr> \<and>
   account_first bank_null 2 = Some \<lparr>a_id = 2, a_customer_id = 2, a_balance = Some PosInf\<rparr> \<and>
   account_first bank_null 1 = Some \<lparr>a_id = 1, a_customer_id = 1, a_balance = None\<rparr> \<and>
   fle (Finite (- 5) 0) PosInf \<and>
   transfer_funds 2 1 (Finite (- 5) 0) bank_null = (Inl TypeError, bank_null)"
proof -
  have a: "a_balance \<lparr>a_id = 1, a_customer_id = 1, a_balance = Some (Finite 25 2)\<rparr>
      = Some (Finite 25 2)"
    by simp
  have neg: "flt (Finite (- 5) 0) (Finite 0 0)"
    and le: "fle (Finite (- 5) 0) (Finite 25 2)"
    and lt: "flt (Finite 25 2) (Finite 105 0)"
    and neg_inf: "flt NegInf (Finite 0 0)"
    and le_inf: "fle NegInf (Finite 0 0)"
    and le_null: "fle (Finite (- 5) 0) PosInf"
    by simp_all
  have nlt: "\<not> flt (Finite 25 2) (Finite (- 5) 0)"
    using le by (rule fle_not_flt)
  have same:
    "fst (transfer_funds 1 1 (Finite (- 5) 0) bank0) = Inr True \<and>
     balance_of (snd (transfer_funds 1 1 (Finite (- 5) 0) bank0)) 1 = Some (Finite 25 2)"
    by (simp add: transfer_funds_same [OF bank0_accounts(1) a nlt]
        balance_of_updated bank0_accounts fsub_100_m5 fadd_105_m5 del: fadd.simps flt.simps)
  have plus: "fadd (Finite 25 2) (fabs (Finite (- 5) 0)) = Finite 105 0"
    by (simp add: fadd_100_5 del: fadd.simps)
  have d: "(2::int) \<noteq> 1"
    by simp
  have nlt_inf: "\<not> flt (Finite 0 0) NegInf" and nlt_null: "\<not> flt PosInf (Finite (- 5) 0)"
    by simp_all
  have bob: "a_balance \<lparr>a_id = 2, a_customer_id = 2, a_balance = Some (Finite 0 0)\<rparr>
      = Some (Finite 0 0)"
    and alice: "a_balance \<lparr>a_id = 1, a_customer_id = 1, a_balance = Some PosInf\<rparr> = Some PosInf"
    and bob': "a_balance \<lparr>a_id = 2, a_customer_id = 2, a_balance = Some PosInf\<rparr> = Some PosInf"
    and alice': "a_balance \<lparr>a_id = 1, a_customer_id = 1, a_balance = None\<rparr> = None"
    by simp_all
  have moved: "transfer_funds 2 1 NegInf bank_inf =
      (Inr True,
       bank_inf\<lparr>tbl_accounts :=
                  map (\<lambda>row. if a_id row = 1 then row\<lparr>a_balance := None\<rparr>
                              else if a_id row = 2 then row\<lparr>a_balance := Some PosInf\<rparr> else row)
                    (tbl_accounts bank_inf),
                tbl_transactions := tbl_transactions bank_inf @
                  [\<lparr>t_id = next_id (map t_id (tbl_transactions bank_inf)),
                    t_from_account_id = 2, t_to_account_id = 1, t_amount = Some NegInf\<rparr>]\<rparr>)"
    by (simp add: transfer_funds_distinct
          [OF bank_inf_accounts(2) bank_inf_accounts(1) d bob alice nlt_inf] fsub_def)
  have infinite: "fst (transfer_funds 2 1 NegInf bank_inf) = Inr True \<and>
      account_first (snd (transfer_funds 2 1 NegInf bank_inf)) 1
        = Some \<lparr>a_id = 1, a_customer_id = 1, a_balance = None\<rparr>"
    unfolding moved by (simp add: account_first_def bank_inf_def)
  have null: "transfer_funds 2 1 (Finite (- 5) 0) bank_null = (Inl TypeError, bank_null)"
    by (rule transfer_funds_null_destination
          [OF bank_null_accounts(2) bank_null_accounts(1) d bob' alice' nlt_null])
  show ?thesis
    using neg le lt neg_inf le_inf le_null same plus infinite null bank0_accounts(1)
      bank_inf_accounts bank_null_accounts
    by (simp del: fadd.simps flt.simps fle.simps)
qed

section \<open>Customers and accounts\<close>

lemma customer_first_id: "customer_first db i = Some c \<Longrightarrow> c_id c = i"
  by (auto simp: customer_first_def find_Some_iff)

lemma customer_first_None_iff:
  "customer_first db i = None \<longleftrightarrow> i \<notin> c_id ` set (tbl_customers db)"
  by (auto simp: customer_first_def find_None_iff)

lemma bank0_reachable:
  "bank0 =
     snd (create_account 2 (Finite 0 0)
       (snd (create_customer ''Bob''
         (snd (create_account 1 (Finite 25 2)
           (snd (create_customer ''Alice'' empty_store)))))))"
  by (simp add: bank0_def create_account_def create_customer_def empty_store_def next_id_def
      customer_first_def Let_def)

lemma bank_inf_reachable:
  "bank_inf =
     snd (create_account 2 (Finite 0 0)
       (snd (create_customer ''Bob''
         (snd (create_account 1 PosInf
           (snd (create_customer ''Alice'' empty_store)))))))"
  by (simp add: bank_inf_def create_account_def create_customer_def empty_store_def next_id_def
      customer_first_def Let_def)

text \<open>
  C6, as amended. \<^verbatim>\<open>create_customer\<close> checks nothing: for every name, the empty string
  among them, it adds a customer row with this name under a new id and returns it.
\<close>

theorem create_customer_any_name:
  "create_customer name db =
     (Inr \<lparr>ct_id = next_id (map c_id (tbl_customers db)), ct_name = name\<rparr>,
      db\<lparr>tbl_customers := tbl_customers db @
            [\<lparr>c_id = next_id (map c_id (tbl_customers db)), c_name = name\<rparr>]\<rparr>)"
  by (simp add: create_customer_def Let_def)

theorem create_customer_any_name_witness:
  "create_customer ''Carol'' bank0 =
     (Inr \<lparr>ct_id = 3, ct_name = ''Carol''\<rparr>,
      bank0\<lparr>tbl_customers := tbl_customers bank0 @ [\<lparr>c_id = 3, c_name = ''Carol''\<rparr>]\<rparr>)"
proof -
  have "next_id (map c_id (tbl_customers bank0)) = 3"
    by (simp add: bank0_def next_id_def)
  then show ?thesis
    using create_customer_any_name [of "''Carol''" bank0] by simp
qed

text \<open>
  C6 as stated fails: on the empty store, \<^verbatim>\<open>create_customer("")\<close> raises nothing and
  adds the row \<open>(1, "")\<close>.
\<close>

theorem create_customer_empty_name_counterexample:
  "create_customer [] empty_store =
     (Inr \<lparr>ct_id = 1, ct_name = []\<rparr>,
      \<lparr>tbl_customers = [\<lparr>c_id = 1, c_name = []\<rparr>], tbl_accounts = [], tbl_transactions = []\<rparr>)"
  by (simp add: create_customer_def empty_store_def next_id_def Let_def)

text \<open>
  C5. \<^verbatim>\<open>create_account\<close> raises \<^verbatim>\<open>ValueError("Customer not found")\<close>, the NotFoundError of
  the specification, exactly when no customer row has the id \<open>customer_id\<close>, and then the
  store is as it was. When a customer row has this id, it returns an account with the
  given balance whose customer has the id \<open>customer_id\<close>, and the account rows are the old
  ones followed by the new row with the returned id, this customer and this balance. The
  balance of the row and of the returned account is the given one as the store keeps it: for
  every float but \<^verbatim>\<open>nan\<close>, a number that is \<^verbatim>\<open>==\<close> to it.
\<close>

theorem create_account_customer:
  "(fst (create_account customer_id initial_balance db) = Inl (ValueError ''Customer not found'')
      \<longleftrightarrow> customer_id \<notin> c_id ` set (tbl_customers db)) \<and>
   (customer_id \<notin> c_id ` set (tbl_customers db) \<longrightarrow>
      snd (create_account customer_id initial_balance db) = db) \<and>
   (customer_id \<in> c_id ` set (tbl_customers db) \<longrightarrow>
      (\<exists>account.
         fst (create_account customer_id initial_balance db) = Inr account \<and>
         at_balance account = sql_real initial_balance \<and>
         ct_id (at_customer account) = customer_id \<and>
         snd (create_account customer_id initial_balance db) =
           db\<lparr>tbl_accounts := tbl_accounts db @
                 [\<lparr>a_id = at_id account, a_customer_id = customer_id,
                   a_balance = sql_real initial_balance\<rparr>]\<rparr>)) \<and>
   (initial_balance \<noteq> NaN \<longrightarrow>
      (\<exists>x. sql_real initial_balance = Some x \<and> feq x initial_balance))"
proof -
  have kept: "initial_balance \<noteq> NaN \<longrightarrow>
      (\<exists>x. sql_real initial_balance = Some x \<and> feq x initial_balance)"
    using sql_real_feq [of initial_balance] by blast
  show ?thesis
  proof (cases "customer_first db customer_id")
    case None
    then show ?thesis
      using kept
      by (simp add: create_account_def customer_first_None_iff [symmetric]
          del: feq.simps sql_real.simps)
  next
    case (Some c)
    moreover from Some have "c_id c = customer_id"
      by (rule customer_first_id)
    moreover from Some have "customer_id \<in> c_id ` set (tbl_customers db)"
      using customer_first_None_iff [of db customer_id] by simp
    ultimately show ?thesis
      using kept
      by (simp add: create_account_def Let_def del: feq.simps sql_real.simps)
  qed
qed

theorem create_account_customer_witness:
  "(7::int) \<notin> c_id ` set (tbl_customers bank0) \<and>
   create_account 7 (Finite 5 3) bank0 = (Inl (ValueError ''Customer not found''), bank0) \<and>
   (2::int) \<in> c_id ` set (tbl_customers bank0) \<and>
   create_account 2 (Finite 5 3) bank0 =
     (Inr \<lparr>at_id = 3, at_balance = Some (Finite 5 3),
          at_customer = \<lparr>ct_id = 2, ct_name = ''Bob''\<rparr>\<rparr>,
      bank0\<lparr>tbl_accounts := tbl_accounts bank0 @
              [\<lparr>a_id = 3, a_customer_id = 2, a_balance = Some (Finite 5 3)\<rparr>]\<rparr>) \<and>
   Finite 5 3 \<noteq> NaN \<and> sql_real (Finite 5 3) = Some (Finite 5 3) \<and>
   feq (Finite 5 3) (Finite 5 3)"
proof -
  have out: "(7::int) \<notin> c_id ` set (tbl_customers bank0)"
    and inn: "(2::int) \<in> c_id ` set (tbl_customers bank0)"
    by (simp_all add: bank0_def)
  have missing: "create_account 7 (Finite 5 3) bank0 = (Inl (ValueError ''Customer not found''), bank0)"
    using create_account_customer [of 7 "Finite 5 3" bank0] out
    by (simp add: prod_eq_iff)
  have "fst (create_account 2 (Finite 5 3) bank0) \<noteq> Inl (ValueError ''Customer not found'')"
    using create_account_customer [of 2 "Finite 5 3" bank0] inn by simp
  moreover have "create_account 2 (Finite 5 3) bank0 =
     (Inr \<lparr>at_id = 3, at_balance = Some (Finite 5 3),
          at_customer = \<lparr>ct_id = 2, ct_name = ''Bob''\<rparr>\<rparr>,
      bank0\<lparr>tbl_accounts := tbl_accounts bank0 @
              [\<lparr>a_id = 3, a_customer_id = 2, a_balance = Some (Finite 5 3)\<rparr>]\<rparr>)"
    by (simp add: create_account_def customer_first_def bank0_def next_id_def Let_def)
  ultimately show ?thesis
    using out inn missing by simp
qed

section \<open>The queries\<close>

lemma customer_first_in: "customer_first db i = Some c \<Longrightarrow> c \<in> set (tbl_customers db)"
  by (auto simp: customer_first_def find_Some_iff)

lemma account_first_in: "account_first db i = Some a \<Longrightarrow> a \<in> set (tbl_accounts db)"
  by (auto simp: account_first_def find_Some_iff)

lemma comprehension_Inr:
  "comprehension f xs = Inr ys \<Longrightarrow> list_all2 (\<lambda>y x. f x = Inr y) ys xs"
  by (induction xs arbitrary: ys) (auto split: sum.splits)

lemma comprehension_total:
  "(\<And>x. x \<in> set xs \<Longrightarrow> \<exists>y. f x = Inr y) \<Longrightarrow> \<exists>ys. comprehension f xs = Inr ys"
  by (induction xs) (fastforce split: sum.splits)+

lemma to_account_type_view:
  assumes "to_account_type db a = Inr v"
  shows "account_view db v a"
proof -
  obtain c where c: "customer_first db (a_customer_id a) = Some c"
    and v: "v = \<lparr>at_id = a_id a, at_balance = a_balance a,
                  at_customer = \<lparr>ct_id = c_id c, ct_name = c_name c\<rparr>\<rparr>"
    using assms
    by (auto simp: to_account_type_def to_customer_type_def split: option.splits)
  have "c \<in> set (tbl_customers db)" and "c_id c = a_customer_id a"
    using c by (simp_all add: customer_first_in customer_first_id)
  then show ?thesis
    unfolding account_view_def v by (intro conjI bexI [of _ c]) simp_all
qed

lemma to_transaction_type_view:
  assumes "to_transaction_type db t = Inr v"
  shows "transaction_view db v t"
proof -
  obtain fa ta fv tv where fa: "account_first db (t_from_account_id t) = Some fa"
    and fv: "to_account_type db fa = Inr fv"
    and ta: "account_first db (t_to_account_id t) = Some ta"
    and tv: "to_account_type db ta = Inr tv"
    and v: "v = \<lparr>tt_id = t_id t, tt_from_account = fv, tt_to_account = tv,
                  tt_amount = t_amount t\<rparr>"
    using assms
    by (auto simp: to_transaction_type_def split: option.splits sum.splits)
  have "fa \<in> set (tbl_accounts db)" and "a_id fa = t_from_account_id t"
    and "ta \<in> set (tbl_accounts db)" and "a_id ta = t_to_account_id t"
    using fa ta by (simp_all add: account_first_in account_first_id)
  moreover have "account_view db fv fa" and "account_view db tv ta"
    using fv tv by (simp_all add: to_account_type_view)
  ultimately show ?thesis
    unfolding transaction_view_def v
    by (intro conjI bexI [of _ fa] bexI [of _ ta]) simp_all
qed

lemma to_account_type_total:
  "a_customer_id a \<in> c_id ` set (tbl_customers db) \<Longrightarrow> \<exists>v. to_account_type db a = Inr v"
  using customer_first_None_iff [of db "a_customer_id a"]
  by (auto simp: to_account_type_def split: option.splits)

lemma to_transaction_type_total:
  assumes "references_ok db"
    and "t_from_account_id t \<in> a_id ` set (tbl_accounts db)"
    and "t_to_account_id t \<in> a_id ` set (tbl_accounts db)"
  shows "\<exists>v. to_transaction_type db t = Inr v"
proof -
  obtain fa where fa: "account_first db (t_from_account_id t) = Some fa"
    using assms(2) account_first_None_iff [of db "t_from_account_id t"] by auto
  obtain ta where ta: "account_first db (t_to_account_id t) = Some ta"
    using assms(3) account_first_None_iff [of db "t_to_account_id t"] by auto
  have "a_customer_id fa \<in> c_id ` set (tbl_customers db)"
    and "a_customer_id ta \<in> c_id ` set (tbl_customers db)"
    using assms(1) account_first_in [OF fa] account_first_in [OF ta]
    by (auto simp: references_ok_def list_all_iff)
  then obtain fv tv where "to_account_type db fa = Inr fv" and "to_account_type db ta = Inr tv"
    using to_account_type_total by blast
  with fa ta show ?thesis
    by (simp add: to_transaction_type_def)
qed

text \<open>
  C7. \<^verbatim>\<open>accounts\<close> called again on the store that a call of \<^verbatim>\<open>accounts\<close> leaves gives
  the same result (the same list in the same order, or the same exception) and the same
  store.
\<close>

theorem accounts_repeatable:
  "accounts (snd (accounts db)) = accounts db"
  by (simp add: accounts_def)

theorem accounts_repeatable_witness:
  "fst (accounts bank1) =
     Inr [\<lparr>at_id = 1, at_balance = Some (Finite 15 2), at_customer = \<lparr>ct_id = 1, ct_name = ''Alice''\<rparr>\<rparr>,
          \<lparr>at_id = 2, at_balance = Some (Finite 5 3), at_customer = \<lparr>ct_id = 2, ct_name = ''Bob''\<rparr>\<rparr>] \<and>
   fst (accounts (snd (accounts bank1))) =
     Inr [\<lparr>at_id = 1, at_balance = Some (Finite 15 2), at_customer = \<lparr>ct_id = 1, ct_name = ''Alice''\<rparr>\<rparr>,
          \<lparr>at_id = 2, at_balance = Some (Finite 5 3), at_customer = \<lparr>ct_id = 2, ct_name = ''Bob''\<rparr>\<rparr>]"
proof -
  have "fst (accounts bank1) =
     Inr [\<lparr>at_id = 1, at_balance = Some (Finite 15 2), at_customer = \<lparr>ct_id = 1, ct_name = ''Alice''\<rparr>\<rparr>,
          \<lparr>at_id = 2, at_balance = Some (Finite 5 3), at_customer = \<lparr>ct_id = 2, ct_name = ''Bob''\<rparr>\<rparr>]"
    by (simp add: accounts_def bank1_def to_account_type_def customer_first_def
        to_customer_type_def)
  then show ?thesis
    using accounts_repeatable [of bank1] by simp
qed

text \<open>
  C8. The three queries leave the store as it is. \<^verbatim>\<open>customers\<close> returns the id and name
  of every customer row, in order. Whatever \<^verbatim>\<open>accounts\<close> and \<^verbatim>\<open>transactions\<close> return shows
  the rows of their table one by one, in order; and they do return when every row refers
  to rows that exist, as the data model has it and as every store that the mutations
  build does (\<open>references_ok_empty\<close> to \<open>references_ok_transfer_funds\<close> below).
\<close>

theorem queries_read_only:
  "snd (customers db) = db \<and> snd (accounts db) = db \<and> snd (transactions db) = db \<and>
   fst (customers db) = Inr (map (\<lambda>c. \<lparr>ct_id = c_id c, ct_name = c_name c\<rparr>) (tbl_customers db)) \<and>
   (\<forall>r. fst (accounts db) = Inr r \<longrightarrow> list_all2 (account_view db) r (tbl_accounts db)) \<and>
   (\<forall>r. fst (transactions db) = Inr r \<longrightarrow>
        list_all2 (transaction_view db) r (tbl_transactions db)) \<and>
   (references_ok db \<longrightarrow>
      (\<exists>r. fst (accounts db) = Inr r) \<and> (\<exists>r. fst (transactions db) = Inr r))"
proof -
  have frame: "snd (customers db) = db \<and> snd (accounts db) = db \<and> snd (transactions db) = db"
    by (simp add: customers_def accounts_def transactions_def)
  have cs: "fst (customers db) =
      Inr (map (\<lambda>c. \<lparr>ct_id = c_id c, ct_name = c_name c\<rparr>) (tbl_customers db))"
    by (simp add: customers_def to_customer_type_def)
  have av: "list_all2 (account_view db) r (tbl_accounts db)" if "fst (accounts db) = Inr r" for r
    using comprehension_Inr [of "to_account_type db" "tbl_accounts db" r] that
    by (auto simp: accounts_def elim!: list_all2_mono intro: to_account_type_view)
  have tv: "list_all2 (transaction_view db) r (tbl_transactions db)"
    if "fst (transactions db) = Inr r" for r
    using comprehension_Inr [of "to_transaction_type db" "tbl_transactions db" r] that
    by (auto simp: transactions_def elim!: list_all2_mono intro: to_transaction_type_view)
  have total: "(\<exists>r. fst (accounts db) = Inr r) \<and> (\<exists>r. fst (transactions db) = Inr r)"
    if ok: "references_ok db"
  proof
    have "\<exists>r. comprehension (to_account_type db) (tbl_accounts db) = Inr r"
      using ok
      by (intro comprehension_total to_account_type_total)
         (simp add: references_ok_def list_all_iff)
    then show "\<exists>r. fst (accounts db) = Inr r"
      by (simp add: accounts_def)
    have "\<exists>r. comprehension (to_transaction_type db) (tbl_transactions db) = Inr r"
      using ok
      by (intro comprehension_total to_transaction_type_total [OF ok])
         (simp_all add: references_ok_def list_all_iff)
    then show "\<exists>r. fst (transactions db) = Inr r"
      by (simp add: transactions_def)
  qed
  from frame cs av tv total show ?thesis
    by blast
qed

theorem queries_read_only_witness:
  "references_ok bank1 \<and>
   customers bank1 =
     (Inr [\<lparr>ct_id = 1, ct_name = ''Alice''\<rparr>, \<lparr>ct_id = 2, ct_name = ''Bob''\<rparr>], bank1) \<and>
   accounts bank1 =
     (Inr [\<lparr>at_id = 1, at_balance = Some (Finite 15 2), at_customer = \<lparr>ct_id = 1, ct_name = ''Alice''\<rparr>\<rparr>,
           \<lparr>at_id = 2, at_balance = Some (Finite 5 3), at_customer = \<lparr>ct_id = 2, ct_name = ''Bob''\<rparr>\<rparr>],
      bank1) \<and>
   transactions bank1 =
     (Inr [\<lparr>tt_id = 1,
            tt_from_account = \<lparr>at_id = 1, at_balance = Some (Finite 15 2),
                                at_customer = \<lparr>ct_id = 1, ct_name = ''Alice''\<rparr>\<rparr>,
            tt_to_account = \<lparr>at_id = 2, at_balance = Some (Finite 5 3),
                              at_customer = \<lparr>ct_id = 2, ct_name = ''Bob''\<rparr>\<rparr>,
            tt_amount = Some (Finite 5 3)\<rparr>],
      bank1)"
proof -
  have ok: "references_ok bank1"
    by (simp add: references_ok_def bank1_def)
  have c: "fst (customers bank1) =
      Inr [\<lparr>ct_id = 1, ct_name = ''Alice''\<rparr>, \<lparr>ct_id = 2, ct_name = ''Bob''\<rparr>]"
    using queries_read_only [of bank1] by (simp add: bank1_def)
  have a: "fst (accounts bank1) =
      Inr [\<lparr>at_id = 1, at_balance = Some (Finite 15 2), at_customer = \<lparr>ct_id = 1, ct_name = ''Alice''\<rparr>\<rparr>,
           \<lparr>at_id = 2, at_balance = Some (Finite 5 3), at_customer = \<lparr>ct_id = 2, ct_name = ''Bob''\<rparr>\<rparr>]"
    by (simp add: accounts_def bank1_def to_account_type_def customer_first_def
        to_customer_type_def)
  have t: "fst (transactions bank1) =
      Inr [\<lparr>tt_id = 1,
            tt_from_account = \<lparr>at_id = 1, at_balance = Some (Finite 15 2),
                                at_customer = \<lparr>ct_id = 1, ct_name = ''Alice''\<rparr>\<rparr>,
            tt_to_account = \<lparr>at_id = 2, at_balance = Some (Finite 5 3),
                              at_customer = \<lparr>ct_id = 2, ct_name = ''Bob''\<rparr>\<rparr>,
            tt_amount = Some (Finite 5 3)\<rparr>]"
    by (simp add: transactions_def bank1_def to_transaction_type_def to_account_type_def
        customer_first_def account_first_def to_customer_type_def)
  show ?thesis
    using queries_read_only [of bank1] ok c a t
    by (simp add: prod_eq_iff)
qed

section \<open>The references stay valid\<close>

lemma references_ok_empty: "references_ok empty_store"
  by (simp add: references_ok_def empty_store_def)

lemma references_ok_create_customer:
  "references_ok db \<Longrightarrow> references_ok (snd (create_customer name db))"
  by (auto simp: references_ok_def create_customer_def Let_def list_all_iff)

lemma references_ok_create_account:
  "references_ok db \<Longrightarrow> references_ok (snd (create_account customer_id initial_balance db))"
  using customer_first_None_iff [of db customer_id]
  by (auto simp: references_ok_def create_account_def Let_def list_all_iff split: option.splits)

lemma references_ok_update:
  assumes "references_ok db"
    and "\<And>row. a_id (f row) = a_id row"
    and "\<And>row. a_customer_id (f row) = a_customer_id row"
    and "t_from_account_id t \<in> a_id ` set (tbl_accounts db)"
    and "t_to_account_id t \<in> a_id ` set (tbl_accounts db)"
  shows "references_ok (db\<lparr>tbl_accounts := map f (tbl_accounts db),
                          tbl_transactions := tbl_transactions db @ [t]\<rparr>)"
proof -
  have "a_id ` set (map f (tbl_accounts db)) = a_id ` set (tbl_accounts db)"
    by (simp add: image_image assms(2))
  then show ?thesis
    using assms(1,4,5)
    by (simp add: references_ok_def list_all_iff assms(3))
qed

lemma references_ok_transfer_funds:
  assumes "references_ok db"
  shows "references_ok (snd (transfer_funds i j amount db))"
proof (cases "account_first db i = None \<or> account_first db j = None")
  case True
  then show ?thesis
    using assms by (simp add: transfer_funds_missing)
next
  case False
  then obtain A B where A: "account_first db i = Some A" and B: "account_first db j = Some B"
    by auto
  have "i \<in> a_id ` set (tbl_accounts db)" and "j \<in> a_id ` set (tbl_accounts db)"
    using A B account_first_None_iff [of db i] account_first_None_iff [of db j] by simp_all
  then show ?thesis
    using assms
    by (simp add: transfer_funds_found [OF A B] references_ok_update
        del: fadd.simps flt.simps sql_real.simps split: option.splits)
qed

lemma bank1_reachable: "bank1 = snd (transfer_funds 1 2 (Finite 5 3) bank0)"
proof -
  have "\<not> flt (Finite 25 2) (Finite 5 3)"
    by simp
  then have "snd (transfer_funds 1 2 (Finite 5 3) bank0) =
      bank0\<lparr>tbl_accounts :=
               map (\<lambda>row. if a_id row = 2 then row\<lparr>a_balance := Some (Finite 5 3)\<rparr>
                           else if a_id row = 1 then row\<lparr>a_balance := Some (Finite 15 2)\<rparr>
                           else row)
                 (tbl_accounts bank0),
             tbl_transactions := tbl_transactions bank0 @
               [\<lparr>t_id = next_id (map t_id (tbl_transactions bank0)), t_from_account_id = 1,
                 t_to_account_id = 2, t_amount = Some (Finite 5 3)\<rparr>]\<rparr>"
    by (simp add: transfer_funds_found [OF bank0_accounts] fsub_100_40 fadd_0_40
        del: fadd.simps)
  then show ?thesis
    by (simp add: next_id_def bank0_def bank1_def)
qed

lemma bank_null_reachable: "bank_null = snd (transfer_funds 1 2 PosInf bank_inf)"
proof -
  have "snd (transfer_funds 1 2 PosInf bank_inf) =
      bank_inf\<lparr>tbl_accounts :=
                 map (\<lambda>row. if a_id row = 2 then row\<lparr>a_balance := Some PosInf\<rparr>
                             else if a_id row = 1 then row\<lparr>a_balance := None\<rparr> else row)
                   (tbl_accounts bank_inf),
               tbl_transactions := tbl_transactions bank_inf @
                 [\<lparr>t_id = next_id (map t_id (tbl_transactions bank_inf)), t_from_account_id = 1,
                   t_to_account_id = 2, t_amount = Some PosInf\<rparr>]\<rparr>"
    by (simp add: transfer_funds_found [OF bank_inf_accounts] fsub_def)
  then show ?thesis
    by (simp add: next_id_def bank_inf_def bank_null_def)
qed

section \<open>Floats that are not negative\<close>

lemma fle_zero:
  "fle (Finite 0 0) (Finite m e) \<longleftrightarrow> 0 \<le> m"
  "fle (Finite 0 0) NegZero"
  "fle (Finite 0 0) PosInf"
  "\<not> fle (Finite 0 0) NegInf"
  "\<not> fle (Finite 0 0) NaN"
  by (simp_all add: Let_def zero_le_mult_iff)

lemma normalize_float_nonneg: "0 \<le> m \<Longrightarrow> fle (Finite 0 0) (normalize_float m e)"
proof (induction m e rule: normalize_float.induct)
  case (1 m e)
  show ?case
  proof (cases "m = 0 \<or> odd m")
    case True
    with "1.prems" show ?thesis
      by (auto simp: normalize_float.simps [of m e] fle_zero simp del: fle.simps)
  next
    case False
    moreover from "1.prems" have "0 \<le> m div 2"
      by simp
    ultimately show ?thesis
      using "1.IH" by (simp add: normalize_float.simps [of m e] del: fle.simps)
  qed
qed

lemma round_half_even_nonneg: "0 \<le> a \<Longrightarrow> 0 \<le> round_half_even a s"
  by (simp add: round_half_even_def Let_def pos_imp_zdiv_nonneg_iff)

lemma round53_nonneg: "0 \<le> k \<Longrightarrow> fle (Finite 0 0) (round53 k e)"
  by (simp add: round53_def Let_def normalize_float_nonneg round_half_even_nonneg fle_zero
      del: fle.simps)

lemma fadd_nonneg:
  assumes "fle (Finite 0 0) x" and "fle (Finite 0 0) y"
  shows "fle (Finite 0 0) (fadd x y)"
  using assms
  by (cases x; cases y) (simp_all add: Let_def round53_nonneg fle_zero del: fle.simps)

lemma fsub_nonneg:
  assumes "fle (Finite 0 0) x" and "fle (Finite 0 0) y" and "is_finite y" and "\<not> flt x y"
  shows "fle (Finite 0 0) (fsub x y)"
  using assms
  by (cases x; cases y)
     (auto simp: fsub_def Let_def round53_nonneg fle_zero not_less mult_le_0_iff
        simp del: fle.simps)

section \<open>Balances that are not negative\<close>

lemma list_all_map_keep:
  assumes "list_all P xs" and "\<And>x. P x \<Longrightarrow> P (f x)"
  shows "list_all P (map f xs)"
  using assms by (simp add: list_all_iff)

lemma sql_real_nonneg:
  "fle (Finite 0 0) x \<Longrightarrow> (case sql_real x of None \<Rightarrow> False | Some b \<Rightarrow> fle (Finite 0 0) b)"
  by (cases x) (simp_all add: fle_zero del: fle.simps)

text \<open>
  C4, as amended. From a store in which every balance is \<^verbatim>\<open>>= 0.0\<close>, every balance is
  still \<^verbatim>\<open>>= 0.0\<close> after \<^verbatim>\<open>create_customer\<close>, after \<^verbatim>\<open>create_account\<close> with an initial
  balance \<^verbatim>\<open>>= 0.0\<close>, and after \<^verbatim>\<open>transfer_funds\<close> with a finite amount \<^verbatim>\<open>>= 0.0\<close>,
  whether the call succeeds or raises.
\<close>

theorem nonneg_balances_preserved:
  assumes "nonneg_balances db"
  shows "nonneg_balances (snd (create_customer name db)) \<and>
         (fle (Finite 0 0) initial_balance \<longrightarrow>
            nonneg_balances (snd (create_account customer_id initial_balance db))) \<and>
         (fle (Finite 0 0) amount \<and> is_finite amount \<longrightarrow>
            nonneg_balances (snd (transfer_funds from_account_id to_account_id amount db)))"
proof (intro conjI impI)
  show "nonneg_balances (snd (create_customer name db))"
    using assms by (simp add: create_customer_def nonneg_balances_def Let_def)
next
  assume "fle (Finite 0 0) initial_balance"
  then have "case sql_real initial_balance of None \<Rightarrow> False | Some b \<Rightarrow> fle (Finite 0 0) b"
    by (rule sql_real_nonneg)
  with assms show "nonneg_balances (snd (create_account customer_id initial_balance db))"
    by (simp add: create_account_def nonneg_balances_def Let_def
        del: fle.simps sql_real.simps split: option.splits)
next
  assume amount: "fle (Finite 0 0) amount \<and> is_finite amount"
  show "nonneg_balances (snd (transfer_funds from_account_id to_account_id amount db))"
  proof (cases "account_first db from_account_id = None \<or> account_first db to_account_id = None")
    case True
    then show ?thesis
      using assms by (simp add: transfer_funds_missing)
  next
    case False
    then obtain A B where A: "account_first db from_account_id = Some A"
      and B: "account_first db to_account_id = Some B"
      by auto
    have "case a_balance A of None \<Rightarrow> False | Some b \<Rightarrow> fle (Finite 0 0) b"
      and "case a_balance B of None \<Rightarrow> False | Some b \<Rightarrow> fle (Finite 0 0) b"
      using assms account_first_in [OF A] account_first_in [OF B]
      by (simp_all add: nonneg_balances_def list_all_iff del: fle.simps)
    then obtain a b where a: "a_balance A = Some a" and nnA: "fle (Finite 0 0) a"
      and b: "a_balance B = Some b" and nnB: "fle (Finite 0 0) b"
      by (auto split: option.splits simp del: fle.simps)
    show ?thesis
    proof (cases "flt a amount")
      case True
      then show ?thesis
        using assms a by (simp add: transfer_funds_found [OF A B] del: flt.simps)
    next
      case False
      have sub: "fle (Finite 0 0) (fsub a amount)"
        using nnA amount False by (simp add: fsub_nonneg del: fle.simps)
      show ?thesis
      proof (cases "from_account_id = to_account_id")
        case True
        have "fle (Finite 0 0) (fadd (fsub a amount) amount)"
          using sub amount by (simp add: fadd_nonneg del: fle.simps fadd.simps)
        then have new: "case sql_real (fadd (fsub a amount) amount) of
            None \<Rightarrow> False | Some b \<Rightarrow> fle (Finite 0 0) b"
          by (rule sql_real_nonneg)
        have "list_all (\<lambda>a. case a_balance a of None \<Rightarrow> False | Some b \<Rightarrow> fle (Finite 0 0) b)
            (map (\<lambda>row. if a_id row = from_account_id
                        then row\<lparr>a_balance := sql_real (fadd (fsub a amount) amount)\<rparr>
                        else row) (tbl_accounts db))"
          using assms [unfolded nonneg_balances_def]
          by (rule list_all_map_keep)
             (simp add: new del: fle.simps fadd.simps sql_real.simps)
        then show ?thesis
          unfolding True [symmetric]
          by (simp add: transfer_funds_same [OF A a False] nonneg_balances_def
              del: fle.simps fadd.simps sql_real.simps)
      next
        case distinct: False
        have "fle (Finite 0 0) (fadd b amount)"
          using nnB amount by (simp add: fadd_nonneg del: fle.simps fadd.simps)
        then have new: "case sql_real (fadd b amount) of
            None \<Rightarrow> False | Some b \<Rightarrow> fle (Finite 0 0) b"
          by (rule sql_real_nonneg)
        have old: "case sql_real (fsub a amount) of
            None \<Rightarrow> False | Some b \<Rightarrow> fle (Finite 0 0) b"
          using sub by (rule sql_real_nonneg)
        have "list_all (\<lambda>a. case a_balance a of None \<Rightarrow> False | Some b \<Rightarrow> fle (Finite 0 0) b)
            (map (\<lambda>row. if a_id row = to_account_id
                        then row\<lparr>a_balance := sql_real (fadd b amount)\<rparr>
                        else if a_id row = from_account_id
                             then row\<lparr>a_balance := sql_real (fsub a amount)\<rparr>
                             else row) (tbl_accounts db))"
          using assms [unfolded nonneg_balances_def]
          by (rule list_all_map_keep)
             (simp add: new old del: fle.simps fadd.simps sql_real.simps)
        then show ?thesis
          by (simp add: transfer_funds_distinct [OF A B distinct a b False] nonneg_balances_def
              del: fle.simps fadd.simps sql_real.simps)
      qed
    qed
  qed
qed

text \<open>On \<open>bank0\<close>: a new customer, a new account of \<^verbatim>\<open>40.0\<close>, a transfer of \<^verbatim>\<open>40.0\<close>.\<close>

theorem nonneg_balances_preserved_witness:
  "nonneg_balances bank0 \<and> fle (Finite 0 0) (Finite 5 3) \<and> is_finite (Finite 5 3) \<and>
   nonneg_balances (snd (create_customer ''Carol'' bank0)) \<and>
   fst (create_account 2 (Finite 5 3) bank0) =
     Inr \<lparr>at_id = 3, at_balance = Some (Finite 5 3),
          at_customer = \<lparr>ct_id = 2, ct_name = ''Bob''\<rparr>\<rparr> \<and>
   nonneg_balances (snd (create_account 2 (Finite 5 3) bank0)) \<and>
   fst (transfer_funds 1 2 (Finite 5 3) bank0) = Inr True \<and>
   nonneg_balances (snd (transfer_funds 1 2 (Finite 5 3) bank0))"
proof -
  have nn: "nonneg_balances bank0"
    by (simp add: nonneg_balances_def bank0_def)
  have amount: "fle (Finite 0 0) (Finite 5 3)" "is_finite (Finite 5 3)"
    by simp_all
  have created: "fst (create_account 2 (Finite 5 3) bank0) =
     Inr \<lparr>at_id = 3, at_balance = Some (Finite 5 3),
          at_customer = \<lparr>ct_id = 2, ct_name = ''Bob''\<rparr>\<rparr>"
    by (simp add: create_account_def customer_first_def bank0_def next_id_def Let_def)
  have "\<not> flt (Finite 25 2) (Finite 5 3)"
    by simp
  then have moved: "fst (transfer_funds 1 2 (Finite 5 3) bank0) = Inr True"
    by (simp add: transfer_funds_found [OF bank0_accounts] del: flt.simps)
  show ?thesis
    using nonneg_balances_preserved [OF nn, of "''Carol''" "Finite 5 3" 2 "Finite 5 3" 1 2]
      nn amount created moved
    by (simp del: fle.simps)
qed

text \<open>
  C4 as stated fails: on \<open>bank0\<close>, whose balances are \<^verbatim>\<open>100.0\<close> and \<^verbatim>\<open>0.0\<close>,
  \<^verbatim>\<open>create_account(1, -5.0)\<close> succeeds and leaves an account of \<^verbatim>\<open>-5.0\<close>, and
  \<^verbatim>\<open>transfer_funds(1, 2, -5.0)\<close> succeeds and leaves Bob's account at \<^verbatim>\<open>-5.0\<close>.
\<close>

theorem nonneg_balances_counterexample:
  "nonneg_balances bank0 \<and> flt (Finite (- 5) 0) (Finite 0 0) \<and>
   fst (create_account 1 (Finite (- 5) 0) bank0) =
     Inr \<lparr>at_id = 3, at_balance = Some (Finite (- 5) 0),
          at_customer = \<lparr>ct_id = 1, ct_name = ''Alice''\<rparr>\<rparr> \<and>
   balance_of (snd (create_account 1 (Finite (- 5) 0) bank0)) 3 = Some (Finite (- 5) 0) \<and>
   \<not> nonneg_balances (snd (create_account 1 (Finite (- 5) 0) bank0)) \<and>
   fst (transfer_funds 1 2 (Finite (- 5) 0) bank0) = Inr True \<and>
   balance_of (snd (transfer_funds 1 2 (Finite (- 5) 0) bank0)) 2 = Some (Finite (- 5) 0) \<and>
   \<not> nonneg_balances (snd (transfer_funds 1 2 (Finite (- 5) 0) bank0))"
proof -
  have before: "nonneg_balances bank0" and neg: "flt (Finite (- 5) 0) (Finite 0 0)"
    by (simp_all add: nonneg_balances_def bank0_def)
  have created:
    "fst (create_account 1 (Finite (- 5) 0) bank0) =
       Inr \<lparr>at_id = 3, at_balance = Some (Finite (- 5) 0),
            at_customer = \<lparr>ct_id = 1, ct_name = ''Alice''\<rparr>\<rparr> \<and>
     balance_of (snd (create_account 1 (Finite (- 5) 0) bank0)) 3 = Some (Finite (- 5) 0) \<and>
     \<not> nonneg_balances (snd (create_account 1 (Finite (- 5) 0) bank0))"
    by (simp add: nonneg_balances_def balance_of_def account_first_def create_account_def
        customer_first_def bank0_def next_id_def Let_def)
  have "\<not> flt (Finite 25 2) (Finite (- 5) 0)"
    by simp
  then have moved: "transfer_funds 1 2 (Finite (- 5) 0) bank0 =
      (Inr True,
       bank0\<lparr>tbl_accounts :=
                map (\<lambda>row. if a_id row = 2 then row\<lparr>a_balance := Some (Finite (- 5) 0)\<rparr>
                            else if a_id row = 1 then row\<lparr>a_balance := Some (Finite 105 0)\<rparr>
                            else row)
                  (tbl_accounts bank0),
              tbl_transactions := tbl_transactions bank0 @
                [\<lparr>t_id = next_id (map t_id (tbl_transactions bank0)), t_from_account_id = 1,
                  t_to_account_id = 2, t_amount = Some (Finite (- 5) 0)\<rparr>]\<rparr>)"
    by (simp add: transfer_funds_found [OF bank0_accounts] fsub_100_m5 fadd_0_m5
        del: fadd.simps flt.simps)
  have after:
    "balance_of (snd (transfer_funds 1 2 (Finite (- 5) 0) bank0)) 2 = Some (Finite (- 5) 0) \<and>
     \<not> nonneg_balances (snd (transfer_funds 1 2 (Finite (- 5) 0) bank0))"
    unfolding moved
    by (simp add: nonneg_balances_def balance_of_def account_first_def bank0_def)
  show ?thesis
    using before neg created after by (simp add: moved)
qed

text \<open>
  Why \<open>nonneg_balances_preserved\<close> asks for a finite amount: from a balance of \<^verbatim>\<open>inf\<close>, a
  transfer of \<^verbatim>\<open>inf\<close> passes the check (\<^verbatim>\<open>inf < inf\<close> is false) and leaves \<^verbatim>\<open>inf - inf\<close>,
  which is \<^verbatim>\<open>nan\<close>: the store keeps NULL, and no later comparison with this balance holds.
\<close>

lemma transfer_funds_infinite_amount:
  "nonneg_balances bank_inf \<and> fle (Finite 0 0) PosInf \<and>
   fst (transfer_funds 1 2 PosInf bank_inf) = Inr True \<and>
   account_first (snd (transfer_funds 1 2 PosInf bank_inf)) 1
     = Some \<lparr>a_id = 1, a_customer_id = 1, a_balance = None\<rparr> \<and>
   \<not> nonneg_balances (snd (transfer_funds 1 2 PosInf bank_inf))"
proof -
  have before: "nonneg_balances bank_inf"
    by (simp add: nonneg_balances_def bank_inf_def)
  have moved: "fst (transfer_funds 1 2 PosInf bank_inf) = Inr True"
    by (simp add: transfer_funds_found [OF bank_inf_accounts])
  have after: "account_first bank_null 1 = Some \<lparr>a_id = 1, a_customer_id = 1, a_balance = None\<rparr>"
    and "\<not> nonneg_balances bank_null"
    by (simp_all add: account_first_def nonneg_balances_def bank_null_def)
  with before moved show ?thesis
    by (simp add: bank_null_reachable [symmetric])
qed

end
